theory Spec2Isabelle
  imports Complex_Main "HOL-Library.Word" "HOL-Library.Char_ord" "HOL-Library.List_Lexorder"
begin

section \<open>Overlap computation of SGA (src/SGA/overlap.cpp)\<close>

text \<open>
  A shallow embedding of \<^verbatim>\<open>overlap.cpp\<close>: the conversion of a line of a hits file into
  overlaps (\<^verbatim>\<open>hitStringToOverlaps\<close>), the legacy writer (\<^verbatim>\<open>writeOverlap\<close>), the
  option parser (\<^verbatim>\<open>parseOverlapOptions\<close>) and the driver (\<^verbatim>\<open>overlapMain\<close>).

  Conventions. A C++ \<^verbatim>\<open>int\<close> is a \<open>32 word\<close>, so that arithmetic wraps around; a
  \<^verbatim>\<open>size_t\<close> index is a \<open>nat\<close> below \<open>2 ^ 64\<close>; the loop variable \<^verbatim>\<open>int64_t j\<close> is an
  \<open>int\<close> (every position outside the suffix array index stops the run, so the loop never
  reaches the end of the 64-bit range). A \<^verbatim>\<open>std::string\<close> is a \<open>string\<close>, ordered
  lexicographically by character code as \<^verbatim>\<open>std::string::operator<\<close> is. A failed
  assertion or lookup is the \<open>Inl\<close> branch of a sum.
\<close>

subsection \<open>Sequence coordinates\<close>

text \<open>
  Modelled from the spec: \<^verbatim>\<open>SeqCoord\<close> (declared in another file).
  A closed interval \<open>[start, end]\<close> on a sequence of length \<open>seqlen\<close>, all three of
  type \<^verbatim>\<open>int\<close>.
\<close>

record SeqCoord =
  interval_start :: "32 word"
  interval_end :: "32 word"
  seqlen :: "32 word"

text \<open>Modelled from the spec: the constructor \<^verbatim>\<open>SeqCoord(s, e, l)\<close>.\<close>

definition mkSeqCoord :: "32 word \<Rightarrow> 32 word \<Rightarrow> 32 word \<Rightarrow> SeqCoord" where
  "mkSeqCoord s e l = \<lparr>interval_start = s, interval_end = e, seqlen = l\<rparr>"

text \<open>Modelled from the spec: \<open>isLeftExtreme := start == 0\<close>.\<close>

definition isLeftExtreme :: "SeqCoord \<Rightarrow> bool" where
  "isLeftExtreme c \<longleftrightarrow> interval_start c = 0"

text \<open>Modelled from the spec: \<open>isRightExtreme := end == sequenceLength - 1\<close>.\<close>

definition isRightExtreme :: "SeqCoord \<Rightarrow> bool" where
  "isRightExtreme c \<longleftrightarrow> interval_end c = seqlen c - 1"

text \<open>Modelled from the spec: \<open>isExtreme := isLeftExtreme || isRightExtreme\<close>.\<close>

definition isExtreme :: "SeqCoord \<Rightarrow> bool" where
  "isExtreme c \<longleftrightarrow> isLeftExtreme c \<or> isRightExtreme c"

text \<open>
  Modelled from the spec:
  \<open>isContained := start == 0 && end == sequenceLength - 1\<close>.
\<close>

definition isContained :: "SeqCoord \<Rightarrow> bool" where
  "isContained c \<longleftrightarrow> interval_start c = 0 \<and> interval_end c = seqlen c - 1"

text \<open>
  Modelled from the spec: \<open>flip()\<close>, with new
  \<open>start = sequenceLength - 1 - end\<close> and new \<open>end = sequenceLength - 1 - start\<close>.
\<close>

definition flip :: "SeqCoord \<Rightarrow> SeqCoord" where
  "flip c = c\<lparr>interval_start := seqlen c - 1 - interval_end c,
              interval_end := seqlen c - 1 - interval_start c\<rparr>"

text \<open>
  The invariant of the data model, \<open>0 <= start <= end < sequenceLength\<close>, read on
  the signed values of the three fields.
\<close>

definition wellFormed :: "SeqCoord \<Rightarrow> bool" where
  "wellFormed c \<longleftrightarrow>
     0 \<le> sint (interval_start c) \<and> sint (interval_start c) \<le> sint (interval_end c) \<and>
     sint (interval_end c) < sint (seqlen c)"

subsection \<open>Reads, suffix array index, hit blocks, overlaps\<close>

text \<open>
  The fatal errors of the design. \<^verbatim>\<open>overlap.cpp\<close> itself raises none: a run stops
  only inside a failed lookup.
\<close>

datatype error = MalformedHitRecord | IndexConsistencyError

text \<open>
  Modelled from the spec: \<^verbatim>\<open>SeqItem\<close> (declared in another file), an entry
  \<open>{ id, sequence }\<close> of a read table.
\<close>

record SeqItem =
  id_item :: string
  seq_item :: string

type_synonym ReadTable = "SeqItem list"

text \<open>
  Modelled from the spec: \<^verbatim>\<open>ReadTable::getRead\<close> (declared in another file): the read
  at an index, and a fatal consistency error when the index is not in the table.
\<close>

definition getRead :: "ReadTable \<Rightarrow> nat \<Rightarrow> error + SeqItem" where
  "getRead rt idx = (if idx < length rt then Inr (rt ! idx) else Inl IndexConsistencyError)"

text \<open>
  Modelled from the spec: \<^verbatim>\<open>SAElem\<close> (declared in another file), an element of the
  suffix array index; \<^verbatim>\<open>getID\<close> is the index of its read in the read table.
\<close>

datatype SAElem = SAElem (getID: nat)

type_synonym SuffixArray = "SAElem list"

text \<open>
  Modelled from the spec: \<^verbatim>\<open>SuffixArray::get\<close> (declared in another file): the
  element at a position; a position outside the index (a negative one included, which the
  conversion to \<^verbatim>\<open>size_t\<close> makes huge) is a fatal consistency error.
\<close>

definition get_sa :: "SuffixArray \<Rightarrow> int \<Rightarrow> error + SAElem" where
  "get_sa sa idx =
     (if 0 \<le> idx \<and> nat idx < length sa then Inr (sa ! nat idx) else Inl IndexConsistencyError)"

text \<open>
  Modelled from the spec: \<^verbatim>\<open>AlignFlags\<close> (declared in another file), the two flags
  \<open>queryIsReverse\<close> and \<open>targetIsReverse\<close> of a block.
\<close>

record AlignFlags =
  isQueryRev :: bool
  isTargetRev :: bool

text \<open>
  Modelled from the spec: \<^verbatim>\<open>OverlapBlock\<close> (declared in another file), with the
  fields that \<^verbatim>\<open>overlap.cpp\<close> reads, \<^verbatim>\<open>ranges.interval[0].lower\<close>,
  \<^verbatim>\<open>ranges.interval[0].upper\<close>, \<^verbatim>\<open>overlapLen\<close>, \<^verbatim>\<open>numDiff\<close> and \<^verbatim>\<open>flags\<close>.
\<close>

record OverlapBlock =
  interval0_lower :: int
  interval0_upper :: int
  overlapLen :: "32 word"
  numDiff :: "32 word"
  flags :: AlignFlags

text \<open>
  Modelled from the spec: \<^verbatim>\<open>Match\<close> and \<^verbatim>\<open>Overlap\<close> (declared in another file),
  with the members that \<^verbatim>\<open>overlap.cpp\<close> reads: \<^verbatim>\<open>id[0]\<close>, \<^verbatim>\<open>id[1]\<close>,
  \<^verbatim>\<open>match.coord[0]\<close>, \<^verbatim>\<open>match.coord[1]\<close>, \<^verbatim>\<open>match.isRC()\<close>.
\<close>

record Match =
  coord0 :: SeqCoord
  coord1 :: SeqCoord
  isRC :: bool
  match_numDiff :: "32 word"

record Overlap =
  id0 :: string
  id1 :: string
  match :: Match

text \<open>
  Modelled from the spec: \<^verbatim>\<open>Match::isContainment\<close>, the match is a containment when
  \<open>coordA.isContained || coordB.isContained\<close>.
\<close>

definition isContainment :: "Match \<Rightarrow> bool" where
  "isContainment m \<longleftrightarrow> isContained (coord0 m) \<or> isContained (coord1 m)"

text \<open>Modelled from the spec: the constructor \<^verbatim>\<open>Overlap(i1, sc1, i2, sc2, isRC, nd)\<close>.\<close>

definition mkOverlap :: "string \<Rightarrow> SeqCoord \<Rightarrow> string \<Rightarrow> SeqCoord \<Rightarrow> bool \<Rightarrow> 32 word \<Rightarrow> Overlap" where
  "mkOverlap i1 sc1 i2 sc2 rc nd =
     \<lparr>id0 = i1, id1 = i2, match = \<lparr>coord0 = sc1, coord1 = sc2, isRC = rc, match_numDiff = nd\<rparr>\<rparr>"

subsection \<open>Formatted extraction from a string stream\<close>

text \<open>
  \<^verbatim>\<open>std::istringstream\<close>: the characters not yet read and the two state bits that the
  extractions set. \<^verbatim>\<open>overlap.cpp\<close> never tests the state of a stream.
\<close>

record istringstream =
  buf :: string
  eofbit :: bool
  failbit :: bool

definition istringstream_of :: "string \<Rightarrow> istringstream" where
  "istringstream_of str = \<lparr>buf = str, eofbit = False, failbit = False\<rparr>"

definition isspace :: "char \<Rightarrow> bool" where
  "isspace c \<longleftrightarrow> c \<in> set [CHR '' '', CHR 0x09, CHR 0x0A, CHR 0x0B, CHR 0x0C, CHR 0x0D]"

definition isdigit :: "char \<Rightarrow> bool" where
  "isdigit c \<longleftrightarrow> c \<in> set ''0123456789''"

text \<open>The value of a digit: the distance of its code from the code of \<open>0\<close>.\<close>

definition digit_value :: "char \<Rightarrow> nat" where
  "digit_value c = of_char c - of_char (CHR ''0'')"

definition digits_value :: "string \<Rightarrow> nat" where
  "digits_value ds = foldl (\<lambda>a c. 10 * a + digit_value c) 0 ds"

text \<open>
  The sentry of a formatted extraction: a stream that is not good fails at once; otherwise
  leading white space is skipped, and reaching the end of the buffer there sets both bits.
\<close>

definition sentry :: "istringstream \<Rightarrow> istringstream" where
  "sentry s =
     (if eofbit s \<or> failbit s then s\<lparr>failbit := True\<rparr>
      else let r = dropWhile isspace (buf s)
           in if r = [] then \<lparr>buf = [], eofbit = True, failbit = True\<rparr> else s\<lparr>buf := r\<rparr>)"

text \<open>
  The characters of a decimal integer: an optional sign and digits. The result is the sign
  and the magnitude (\<open>None\<close> when there is no digit) and the characters left.
\<close>

definition scan_integer :: "string \<Rightarrow> (bool \<times> nat) option \<times> string" where
  "scan_integer r =
     (let neg = (case r of c # _ \<Rightarrow> c = CHR ''-'' | [] \<Rightarrow> False);
          r1 = (case r of c # cs \<Rightarrow> if c = CHR ''+'' \<or> c = CHR ''-'' then cs else r | [] \<Rightarrow> r);
          ds = takeWhile isdigit r1
      in (if ds = [] then None else Some (neg, digits_value ds), dropWhile isdigit r1))"

text \<open>
  \<^verbatim>\<open>operator>>\<close> for an unsigned integer of \<open>w\<close> bits, given the stream and the value
  the variable holds. When the sentry fails the variable is left as it is (indeterminate,
  for a variable that was never initialised); when no number can be read it is set to 0;
  a magnitude out of range gives the largest value; both set \<open>failbit\<close>. A negative
  number is negated in the unsigned type.
\<close>

definition extract_unsigned :: "nat \<Rightarrow> istringstream \<Rightarrow> nat \<Rightarrow> nat \<times> istringstream" where
  "extract_unsigned w s v =
     (let s1 = sentry s
      in if failbit s1 then (v, s1)
         else case scan_integer (buf s1) of (res, r) \<Rightarrow>
           let s2 = s1\<lparr>buf := r, eofbit := (r = [])\<rparr>
           in (case res of
                 None \<Rightarrow> (0, s2\<lparr>failbit := True\<rparr>)
               | Some (neg, m) \<Rightarrow>
                   if 2 ^ w \<le> m then (2 ^ w - 1, s2\<lparr>failbit := True\<rparr>)
                   else (if neg then (2 ^ w - m) mod 2 ^ w else m, s2)))"

text \<open>
  \<^verbatim>\<open>operator>>\<close> for a signed integer of \<open>w\<close> bits: as above, and a value out of range
  gives the nearest bound.
\<close>

definition extract_signed :: "nat \<Rightarrow> istringstream \<Rightarrow> int \<Rightarrow> int \<times> istringstream" where
  "extract_signed w s v =
     (let s1 = sentry s
      in if failbit s1 then (v, s1)
         else case scan_integer (buf s1) of (res, r) \<Rightarrow>
           let s2 = s1\<lparr>buf := r, eofbit := (r = [])\<rparr>
           in (case res of
                 None \<Rightarrow> (0, s2\<lparr>failbit := True\<rparr>)
               | Some (neg, m) \<Rightarrow>
                   let x = (if neg then - int m else int m)
                   in if 2 ^ (w - 1) \<le> x then (2 ^ (w - 1) - 1, s2\<lparr>failbit := True\<rparr>)
                      else if x < - (2 ^ (w - 1)) then (- (2 ^ (w - 1)), s2\<lparr>failbit := True\<rparr>)
                      else (x, s2)))"

text \<open>\<^verbatim>\<open>operator>>\<close> for \<^verbatim>\<open>size_t\<close> and for \<^verbatim>\<open>int\<close>.\<close>

definition extract_size_t :: "istringstream \<Rightarrow> nat \<Rightarrow> nat \<times> istringstream" where
  "extract_size_t = extract_unsigned 64"

definition extract_int :: "istringstream \<Rightarrow> 32 word \<Rightarrow> 32 word \<times> istringstream" where
  "extract_int s v = (case extract_signed 32 s (sint v) of (x, s') \<Rightarrow> (word_of_int x, s'))"

subsection \<open>hitStringToOverlaps\<close>

text \<open>
  Lines 288 to 306: the overlap of a query and a target read for a block. The difference
  \<^verbatim>\<open>query.seq.length() - record.overlapLen\<close> is computed in \<^verbatim>\<open>size_t\<close> and stored in
  an \<^verbatim>\<open>int\<close>, which is the difference modulo \<open>2 ^ 32\<close>.
\<close>

definition length32 :: "string \<Rightarrow> 32 word" where
  "length32 str = word_of_nat (length str)"

definition buildOverlap :: "OverlapBlock \<Rightarrow> SeqItem \<Rightarrow> SeqItem \<Rightarrow> Overlap" where
  "buildOverlap record query target =
     (let s1 = length32 (seq_item query) - overlapLen record;
          e1 = s1 + overlapLen record - 1;
          sc1 = mkSeqCoord s1 e1 (length32 (seq_item query));
          s2 = 0;
          e2 = s2 + overlapLen record - 1;
          sc2 = mkSeqCoord s2 e2 (length32 (seq_item target));
          sc1 = (if isQueryRev (flags record) then flip sc1 else sc1);
          sc2 = (if isTargetRev (flags record) then flip sc2 else sc2);
          isRC = (isTargetRev (flags record) \<noteq> isQueryRev (flags record))
      in mkOverlap (id_item query) sc1 (id_item target) sc2 isRC (numDiff record))"

text \<open>
  Lines 276 to 316: the body of the loop over the positions \<open>j\<close> of a block, from the
  vector of overlaps so far to the vector after the position.
\<close>

definition positionBody ::
  "nat \<Rightarrow> OverlapBlock \<Rightarrow> ReadTable \<Rightarrow> ReadTable \<Rightarrow> SuffixArray \<Rightarrow> SuffixArray \<Rightarrow>
   int \<Rightarrow> Overlap list \<Rightarrow> error + Overlap list" where
  "positionBody readIdx record pFwdRT pRevRT pFwdSAI pRevSAI j outvec =
     (let pCurrRT = (if isTargetRev (flags record) then pRevRT else pFwdRT);
          pCurrSAI = (if isTargetRev (flags record) then pRevSAI else pFwdSAI)
      in case getRead pCurrRT readIdx of
           Inl e \<Rightarrow> Inl e
         | Inr query \<Rightarrow>
             (case get_sa pCurrSAI j of
                Inl e \<Rightarrow> Inl e
              | Inr elem \<Rightarrow>
                  (case getRead pCurrRT (getID elem) of
                     Inl e \<Rightarrow> Inl e
                   | Inr target \<Rightarrow>
                       if id_item query \<noteq> id_item target then
                         let ov = buildOverlap record query target
                         in if id0 ov < id1 ov \<or> (isContainment (match ov) \<and> isQueryRev (flags record))
                            then Inr outvec
                            else Inr (outvec @ [ov])
                       else Inr outvec)))"

text \<open>
  The loop \<^verbatim>\<open>for(int64_t j = lower; j <= upper; ++j)\<close> of line 274, for any body that
  may stop the run.
\<close>

function forRange ::
  "(int \<Rightarrow> 'a \<Rightarrow> error + 'a) \<Rightarrow> int \<Rightarrow> int \<Rightarrow> 'a \<Rightarrow> error + 'a" where
  "forRange body j upper acc =
     (if j \<le> upper
      then (case body j acc of Inl e \<Rightarrow> Inl e | Inr acc' \<Rightarrow> forRange body (j + 1) upper acc')
      else Inr acc)"
  by pat_completeness auto

termination
  by (relation "measure (\<lambda>(body, j, upper, acc). nat (upper + 1 - j))") auto

declare forRange.simps [simp del]

text \<open>
  The loop \<^verbatim>\<open>for(size_t i = 0; i < numBlocks; ++i)\<close> of line 266, on the number of
  blocks still to read. \<open>readBlock\<close> is \<^verbatim>\<open>operator>>\<close> for \<^verbatim>\<open>OverlapBlock\<close>, which
  is declared in another file: it gives the block read (whatever a default-constructed
  block holds where the extraction fails) and the stream after it.
\<close>

fun blockLoop ::
  "(istringstream \<Rightarrow> OverlapBlock \<times> istringstream) \<Rightarrow> nat \<Rightarrow>
   ReadTable \<Rightarrow> ReadTable \<Rightarrow> SuffixArray \<Rightarrow> SuffixArray \<Rightarrow>
   nat \<Rightarrow> istringstream \<Rightarrow> Overlap list \<Rightarrow> error + Overlap list" where
  "blockLoop readBlock readIdx pFwdRT pRevRT pFwdSAI pRevSAI 0 convertor outvec = Inr outvec"
| "blockLoop readBlock readIdx pFwdRT pRevRT pFwdSAI pRevSAI (Suc n) convertor outvec =
     (case readBlock convertor of (record, convertor') \<Rightarrow>
        (case forRange (positionBody readIdx record pFwdRT pRevRT pFwdSAI pRevSAI)
                (interval0_lower record) (interval0_upper record) outvec of
           Inl e \<Rightarrow> Inl e
         | Inr outvec' \<Rightarrow>
             blockLoop readBlock readIdx pFwdRT pRevRT pFwdSAI pRevSAI n convertor' outvec'))"

text \<open>
  \<^verbatim>\<open>hitStringToOverlaps\<close>. The locals \<^verbatim>\<open>readIdx\<close> and \<^verbatim>\<open>numBlocks\<close> are declared
  without an initial value: \<open>readIdx0\<close> and \<open>numBlocks0\<close> are what they hold before
  the two extractions.
\<close>

definition hitStringToOverlaps ::
  "(istringstream \<Rightarrow> OverlapBlock \<times> istringstream) \<Rightarrow> nat \<Rightarrow> nat \<Rightarrow> string \<Rightarrow>
   ReadTable \<Rightarrow> ReadTable \<Rightarrow> SuffixArray \<Rightarrow> SuffixArray \<Rightarrow> error + Overlap list" where
  "hitStringToOverlaps readBlock readIdx0 numBlocks0 hitString pFwdRT pRevRT pFwdSAI pRevSAI =
     (let outvec = [];
          convertor = istringstream_of hitString
      in case extract_size_t convertor readIdx0 of (readIdx, convertor) \<Rightarrow>
           (case extract_size_t convertor numBlocks0 of (numBlocks, convertor) \<Rightarrow>
              blockLoop readBlock readIdx pFwdRT pRevRT pFwdSAI pRevSAI numBlocks convertor outvec))"

subsection \<open>The extraction of a block\<close>

text \<open>
  Modelled from the spec: \<^verbatim>\<open>operator>>\<close> for \<^verbatim>\<open>AlignFlags\<close> (declared in another file).
  The flags are one token of two characters, each \<open>0\<close> or \<open>1\<close>: \<open>queryIsReverse\<close>,
  then \<open>targetIsReverse\<close>. Anything else sets \<open>failbit\<close> and leaves the flags.
\<close>

definition extract_flags :: "istringstream \<Rightarrow> AlignFlags \<Rightarrow> AlignFlags \<times> istringstream" where
  "extract_flags s v =
     (let s1 = sentry s
      in if failbit s1 then (v, s1)
         else (case buf s1 of
                 q # t # r \<Rightarrow>
                   if q \<in> set ''01'' \<and> t \<in> set ''01''
                   then (\<lparr>isQueryRev = (q = CHR ''1''), isTargetRev = (t = CHR ''1'')\<rparr>,
                         s1\<lparr>buf := r\<rparr>)
                   else (v, s1\<lparr>failbit := True\<rparr>)
               | _ \<Rightarrow> (v, s1\<lparr>failbit := True\<rparr>)))"

definition extract_int64 :: "istringstream \<Rightarrow> int \<Rightarrow> int \<times> istringstream" where
  "extract_int64 = extract_signed 64"

text \<open>
  Modelled from the spec: \<^verbatim>\<open>operator>>\<close> for \<^verbatim>\<open>OverlapBlock\<close> (declared in another
  file), reading the five fields of a block of the hit file format in their order:
  \<open>intervalLower intervalUpper overlapLength numDifferences flags\<close>. The first argument
  is the block before the extraction, as its default constructor left it.
\<close>

definition extractOverlapBlock ::
  "OverlapBlock \<Rightarrow> istringstream \<Rightarrow> OverlapBlock \<times> istringstream" where
  "extractOverlapBlock obl s0 =
     (case extract_int64 s0 (interval0_lower obl) of (lo, s1) \<Rightarrow>
      (case extract_int64 s1 (interval0_upper obl) of (up, s2) \<Rightarrow>
       (case extract_int s2 (overlapLen obl) of (ol, s3) \<Rightarrow>
        (case extract_int s3 (numDiff obl) of (nd, s4) \<Rightarrow>
         (case extract_flags s4 (flags obl) of (fl, s5) \<Rightarrow>
            (\<lparr>interval0_lower = lo, interval0_upper = up, overlapLen = ol, numDiff = nd,
              flags = fl\<rparr>, s5))))))"

subsection \<open>The overlaps of a line, position by position\<close>

text \<open>
  What follows states the result of \<^verbatim>\<open>hitStringToOverlaps\<close> without its loops, to
  compare the code with. First the values that the two extractions of line 263 leave in
  \<^verbatim>\<open>readIdx\<close> and \<^verbatim>\<open>numBlocks\<close>, and the blocks that \<open>numBlocks\<close>
  extractions then read from the stream.
\<close>

fun readBlocks ::
  "(istringstream \<Rightarrow> OverlapBlock \<times> istringstream) \<Rightarrow> nat \<Rightarrow> istringstream \<Rightarrow> OverlapBlock list" where
  "readBlocks readBlock 0 convertor = []"
| "readBlocks readBlock (Suc n) convertor =
     (case readBlock convertor of (record, convertor') \<Rightarrow>
        record # readBlocks readBlock n convertor')"

definition hitReadIdx :: "nat \<Rightarrow> string \<Rightarrow> nat" where
  "hitReadIdx readIdx0 hitString = fst (extract_size_t (istringstream_of hitString) readIdx0)"

definition hitNumBlocks :: "nat \<Rightarrow> nat \<Rightarrow> string \<Rightarrow> nat" where
  "hitNumBlocks readIdx0 numBlocks0 hitString =
     fst (extract_size_t (snd (extract_size_t (istringstream_of hitString) readIdx0)) numBlocks0)"

definition hitBlocks ::
  "(istringstream \<Rightarrow> OverlapBlock \<times> istringstream) \<Rightarrow> nat \<Rightarrow> nat \<Rightarrow> string \<Rightarrow>
   OverlapBlock list" where
  "hitBlocks readBlock readIdx0 numBlocks0 hitString =
     readBlocks readBlock (hitNumBlocks readIdx0 numBlocks0 hitString)
       (snd (extract_size_t (snd (extract_size_t (istringstream_of hitString) readIdx0))
          numBlocks0))"

text \<open>
  A position \<open>j\<close> of a block resolves when the three lookups of lines 278 to 283
  find their entry: the query read, the element of the index at \<open>j\<close>, and the target
  read of that element, in the tables that the target flag of the block selects. The two
  reads are then \<open>queryAt\<close> and \<open>targetAt\<close>.
\<close>

definition resolves ::
  "nat \<Rightarrow> OverlapBlock \<Rightarrow> ReadTable \<Rightarrow> ReadTable \<Rightarrow> SuffixArray \<Rightarrow> SuffixArray \<Rightarrow> int \<Rightarrow> bool" where
  "resolves readIdx record pFwdRT pRevRT pFwdSAI pRevSAI j \<longleftrightarrow>
     (let pCurrRT = (if isTargetRev (flags record) then pRevRT else pFwdRT);
          pCurrSAI = (if isTargetRev (flags record) then pRevSAI else pFwdSAI)
      in readIdx < length pCurrRT \<and> 0 \<le> j \<and> nat j < length pCurrSAI \<and>
         getID (pCurrSAI ! nat j) < length pCurrRT)"

definition queryAt :: "nat \<Rightarrow> OverlapBlock \<Rightarrow> ReadTable \<Rightarrow> ReadTable \<Rightarrow> SeqItem" where
  "queryAt readIdx record pFwdRT pRevRT =
     (if isTargetRev (flags record) then pRevRT else pFwdRT) ! readIdx"

definition targetAt ::
  "OverlapBlock \<Rightarrow> ReadTable \<Rightarrow> ReadTable \<Rightarrow> SuffixArray \<Rightarrow> SuffixArray \<Rightarrow> int \<Rightarrow> SeqItem" where
  "targetAt record pFwdRT pRevRT pFwdSAI pRevSAI j =
     (if isTargetRev (flags record) then pRevRT else pFwdRT) !
       getID ((if isTargetRev (flags record) then pRevSAI else pFwdSAI) ! nat j)"

text \<open>
  The deduplication rule of the design: discard the overlap if \<open>idA < idB\<close>, or if the
  match is a containment (\<open>coordA.isContained || coordB.isContained\<close>) and
  \<open>queryIsReverse\<close> is true.
\<close>

definition discardRule :: "OverlapBlock \<Rightarrow> Overlap \<Rightarrow> bool" where
  "discardRule record ovr \<longleftrightarrow>
     id0 ovr < id1 ovr \<or>
     ((isContained (coord0 (match ovr)) \<or> isContained (coord1 (match ovr))) \<and>
      isQueryRev (flags record))"

text \<open>
  The overlaps that a position and a block contribute by the rules of the design: nothing
  for a self-match, nothing for an overlap that the deduplication rule discards, and the
  overlap built at the position otherwise; a block contributes what its positions do, in
  ascending order.
\<close>

definition positionOverlaps ::
  "nat \<Rightarrow> OverlapBlock \<Rightarrow> ReadTable \<Rightarrow> ReadTable \<Rightarrow> SuffixArray \<Rightarrow> SuffixArray \<Rightarrow>
   int \<Rightarrow> Overlap list" where
  "positionOverlaps readIdx record pFwdRT pRevRT pFwdSAI pRevSAI j =
     (let query = queryAt readIdx record pFwdRT pRevRT;
          target = targetAt record pFwdRT pRevRT pFwdSAI pRevSAI j
      in if id_item query \<noteq> id_item target \<and>
            \<not> discardRule record (buildOverlap record query target)
         then [buildOverlap record query target] else [])"

definition blockOverlaps ::
  "nat \<Rightarrow> ReadTable \<Rightarrow> ReadTable \<Rightarrow> SuffixArray \<Rightarrow> SuffixArray \<Rightarrow> OverlapBlock \<Rightarrow>
   Overlap list" where
  "blockOverlaps readIdx pFwdRT pRevRT pFwdSAI pRevSAI record =
     concat (map (positionOverlaps readIdx record pFwdRT pRevRT pFwdSAI pRevSAI)
       [interval0_lower record..interval0_upper record])"

text \<open>
  The overlap of a query and a target in the words of the design: \<open>coordA\<close> is
  \<open>[len(query) - overlapLength, len(query) - 1]\<close> on \<open>len(query)\<close>, \<open>coordB\<close> is
  \<open>[0, overlapLength - 1]\<close> on \<open>len(target)\<close>, each flipped when its side is
  reverse, and \<open>isReverseComplement\<close> is the exclusive or of the two flags.
\<close>

definition specOverlap :: "OverlapBlock \<Rightarrow> SeqItem \<Rightarrow> SeqItem \<Rightarrow> Overlap" where
  "specOverlap record query target =
     \<lparr>id0 = id_item query, id1 = id_item target,
      match =
        \<lparr>coord0 =
           (if isQueryRev (flags record)
            then flip (mkSeqCoord (length32 (seq_item query) - overlapLen record)
                         (length32 (seq_item query) - 1) (length32 (seq_item query)))
            else mkSeqCoord (length32 (seq_item query) - overlapLen record)
                   (length32 (seq_item query) - 1) (length32 (seq_item query))),
         coord1 =
           (if isTargetRev (flags record)
            then flip (mkSeqCoord 0 (overlapLen record - 1) (length32 (seq_item target)))
            else mkSeqCoord 0 (overlapLen record - 1) (length32 (seq_item target))),
         isRC = (isTargetRev (flags record) \<noteq> isQueryRev (flags record)),
         match_numDiff = numDiff record\<rparr>\<rparr>"

subsection \<open>writeOverlap\<close>

text \<open>
  The three streams \<^verbatim>\<open>writeOverlap\<close> writes to: each holds the overlaps written to it,
  one per line; \<^verbatim>\<open>std::cerr\<close> holds each message with the overlap it reports.
\<close>

record streams =
  containHandle :: "Overlap list"
  overlapHandle :: "Overlap list"
  cerr :: "(string \<times> Overlap) list"

definition writeOverlap :: "Overlap \<Rightarrow> streams \<Rightarrow> streams" where
  "writeOverlap ovr st =
     (if isContained (coord0 (match ovr)) \<or> isContained (coord1 (match ovr))
      then st\<lparr>containHandle := containHandle st @ [ovr]\<rparr>
      else if \<not> isExtreme (coord0 (match ovr)) \<or> \<not> isExtreme (coord1 (match ovr))
      then st\<lparr>cerr := cerr st @ [(''Skipping non-extreme overlap: '', ovr)]\<rparr>
      else
        let sameStrand = \<not> isRC (match ovr);
            proper =
              (if sameStrand
               then isLeftExtreme (coord0 (match ovr)) \<noteq> isLeftExtreme (coord1 (match ovr)) \<and>
                    isRightExtreme (coord0 (match ovr)) \<noteq> isRightExtreme (coord1 (match ovr))
               else isLeftExtreme (coord0 (match ovr)) = isLeftExtreme (coord1 (match ovr)) \<and>
                    isRightExtreme (coord0 (match ovr)) = isRightExtreme (coord1 (match ovr)))
        in if \<not> proper
           then st\<lparr>cerr := cerr st @ [(''Skipping improper overlap: '', ovr)]\<rparr>
           else st\<lparr>overlapHandle := overlapHandle st @ [ovr]\<rparr>)"

text \<open>
  The loop of lines 236 and 237 over the overlaps of a line, each passed to
  \<^verbatim>\<open>writeOverlap\<close>.
\<close>

fun writeOverlaps :: "Overlap list \<Rightarrow> streams \<Rightarrow> streams" where
  "writeOverlaps [] st = st"
| "writeOverlaps (ovr # ov) st = writeOverlaps ov (writeOverlap ovr st)"

text \<open>
  The properness rule of the design: for a same-strand overlap the two left-extreme values
  differ and the two right-extreme values differ; for an opposite-strand overlap both pairs
  agree.
\<close>

definition proper_spec :: "Overlap \<Rightarrow> bool" where
  "proper_spec ovr \<longleftrightarrow>
     (if isRC (match ovr)
      then isLeftExtreme (coord0 (match ovr)) = isLeftExtreme (coord1 (match ovr)) \<and>
           isRightExtreme (coord0 (match ovr)) = isRightExtreme (coord1 (match ovr))
      else isLeftExtreme (coord0 (match ovr)) \<noteq> isLeftExtreme (coord1 (match ovr)) \<and>
           isRightExtreme (coord0 (match ovr)) \<noteq> isRightExtreme (coord1 (match ovr)))"

subsection \<open>parseOverlapOptions and overlapMain\<close>

datatype OutputType = OT_ASQG | OT_RAW

text \<open>The variables of the namespace \<^verbatim>\<open>opt\<close>.\<close>

record opt =
  opt_verbose :: "32 word"
  opt_numThreads :: "32 word"
  opt_outputType :: OutputType
  opt_prefix :: string
  opt_readsFile :: string
  opt_errorRate :: real
  opt_minOverlap :: "32 word"
  opt_seedLength :: "32 word"
  opt_seedStride :: "32 word"
  opt_bIrreducibleOnly :: bool

text \<open>
  Their initial values (lines 67 to 77); a static variable without an initialiser is zero.
  \<^verbatim>\<open>DEFAULT_MIN_OVERLAP\<close> is defined in another file and is a parameter here.
\<close>

definition opt_initial :: "32 word \<Rightarrow> opt" where
  "opt_initial DEFAULT_MIN_OVERLAP =
     \<lparr>opt_verbose = 0, opt_numThreads = 1, opt_outputType = OT_ASQG, opt_prefix = [],
      opt_readsFile = [], opt_errorRate = 0, opt_minOverlap = DEFAULT_MIN_OVERLAP,
      opt_seedLength = 0, opt_seedStride = 0, opt_bIrreducibleOnly = False\<rparr>"

text \<open>\<^verbatim>\<open>operator>>\<close> for \<^verbatim>\<open>unsigned int\<close> and for \<^verbatim>\<open>std::string\<close>.\<close>

definition extract_unsigned_int :: "istringstream \<Rightarrow> 32 word \<Rightarrow> 32 word \<times> istringstream" where
  "extract_unsigned_int s v =
     (case extract_unsigned 32 s (unat v) of (x, s') \<Rightarrow> (word_of_nat x, s'))"

definition extract_string :: "istringstream \<Rightarrow> string \<Rightarrow> string \<times> istringstream" where
  "extract_string s v =
     (let s1 = sentry s
      in if failbit s1 then (v, s1)
         else let r = dropWhile (\<lambda>c. \<not> isspace c) (buf s1)
              in (takeWhile (\<lambda>c. \<not> isspace c) (buf s1), s1\<lparr>buf := r, eofbit := (r = [])\<rparr>))"

datatype exit_code = EXIT_SUCCESS | EXIT_FAILURE

text \<open>
  The \<^verbatim>\<open>switch\<close> of lines 373 to 390, for one value \<open>c\<close> returned by
  \<^verbatim>\<open>getopt_long\<close> and the stream \<open>arg\<close> on its argument. The state is the local
  \<^verbatim>\<open>die\<close> and the options; \<^verbatim>\<open>exit\<close> is the \<open>Inl\<close> branch. \<^verbatim>\<open>OPT_HELP\<close> is 1 and
  \<^verbatim>\<open>OPT_VERSION\<close> is 2. \<open>extract_double\<close> is \<^verbatim>\<open>operator>>\<close> for \<^verbatim>\<open>double\<close>, a
  parameter. The messages written to the standard streams are left out.
\<close>

definition optionCase ::
  "(istringstream \<Rightarrow> real \<Rightarrow> real \<times> istringstream) \<Rightarrow> char \<Rightarrow> istringstream \<Rightarrow>
   bool \<times> opt \<Rightarrow> exit_code + bool \<times> opt" where
  "optionCase extract_double c arg st =
     (case st of (die, opts) \<Rightarrow>
        if c = CHR ''m'' then
          Inr (die, opts\<lparr>opt_minOverlap := fst (extract_unsigned_int arg (opt_minOverlap opts))\<rparr>)
        else if c = CHR ''p'' then
          Inr (die, opts\<lparr>opt_prefix := fst (extract_string arg (opt_prefix opts))\<rparr>)
        else if c = CHR ''e'' then
          Inr (die, opts\<lparr>opt_errorRate := fst (extract_double arg (opt_errorRate opts))\<rparr>)
        else if c = CHR ''t'' then
          Inr (die, opts\<lparr>opt_numThreads := fst (extract_int arg (opt_numThreads opts))\<rparr>)
        else if c = CHR ''l'' then
          Inr (die, opts\<lparr>opt_seedLength := fst (extract_int arg (opt_seedLength opts))\<rparr>)
        else if c = CHR ''s'' then
          Inr (die, opts\<lparr>opt_seedStride := fst (extract_int arg (opt_seedStride opts))\<rparr>)
        else if c = CHR ''i'' then Inr (die, opts\<lparr>opt_bIrreducibleOnly := True\<rparr>)
        else if c = CHR ''?'' then Inr (True, opts)
        else if c = CHR ''v'' then Inr (die, opts\<lparr>opt_verbose := opt_verbose opts + 1\<rparr>)
        else if c = CHR 0x01 then Inl EXIT_SUCCESS
        else if c = CHR 0x02 then Inl EXIT_SUCCESS
        else Inr (die, opts))"

text \<open>
  The loop of line 370 over the values that \<^verbatim>\<open>getopt_long\<close> returns before \<open>-1\<close>, each
  with the \<^verbatim>\<open>optarg\<close> it sets (\<open>None\<close> for \<^verbatim>\<open>NULL\<close>).
\<close>

fun optionLoop ::
  "(istringstream \<Rightarrow> real \<Rightarrow> real \<times> istringstream) \<Rightarrow> (char \<times> string option) list \<Rightarrow>
   bool \<times> opt \<Rightarrow> exit_code + bool \<times> opt" where
  "optionLoop extract_double [] st = Inr st"
| "optionLoop extract_double ((c, optarg) # rest) st =
     (case optionCase extract_double c
             (istringstream_of (case optarg of Some a \<Rightarrow> a | None \<Rightarrow> [])) st of
        Inl code \<Rightarrow> Inl code
      | Inr st' \<Rightarrow> optionLoop extract_double rest st')"

text \<open>
  \<^verbatim>\<open>parseOverlapOptions\<close>: \<open>getopts\<close> is what \<^verbatim>\<open>getopt_long\<close> returns, \<open>operands\<close>
  are the arguments from \<^verbatim>\<open>argv[optind]\<close> on, and \<open>stripFilename\<close> (of another file)
  is a parameter.
\<close>

definition parseOverlapOptions ::
  "(istringstream \<Rightarrow> real \<Rightarrow> real \<times> istringstream) \<Rightarrow> (string \<Rightarrow> string) \<Rightarrow>
   (char \<times> string option) list \<Rightarrow> string list \<Rightarrow> opt \<Rightarrow> exit_code + opt" where
  "parseOverlapOptions extract_double stripFilename getopts operands opts0 =
     (case optionLoop extract_double getopts (False, opts0) of
        Inl code \<Rightarrow> Inl code
      | Inr (die, opts) \<Rightarrow>
          let die = (if length operands < 1 then True
                     else if length operands > 1 then True else die);
              die = (if sint (opt_numThreads opts) \<le> 0 then True else die)
          in if die then Inl EXIT_FAILURE
             else
               let opts = (if opt_errorRate opts \<le> 0 then opts\<lparr>opt_errorRate := 0\<rparr> else opts);
                   opts = (if sint (opt_seedLength opts) < 0
                           then opts\<lparr>opt_seedLength := 0\<rparr> else opts);
                   opts = (if 0 < sint (opt_seedLength opts) \<and> sint (opt_seedStride opts) \<le> 0
                           then opts\<lparr>opt_seedStride := opt_seedLength opts\<rparr> else opts);
                   opts = opts\<lparr>opt_readsFile := hd operands\<rparr>;
                   opts = (if opt_prefix opts = []
                           then opts\<lparr>opt_prefix := stripFilename (opt_readsFile opts)\<rparr>
                           else opts)
               in Inr opts)"

text \<open>
  \<^verbatim>\<open>overlapMain\<close>, as the routines of the conversion that a run calls, in their order:
  the computation of the hits, serial or parallel, and the conversion of the hits files.
  \<^verbatim>\<open>convertHitsToOverlaps\<close> is the legacy conversion, the only caller of
  \<^verbatim>\<open>writeOverlap\<close>.
\<close>

datatype routine =
  ComputeHitsSerial | ComputeHitsParallel | ConvertHitsToASQG | ConvertHitsToOverlaps

datatype run = Exited exit_code | AssertionFailed | Returned "routine list"

definition overlapMain ::
  "(istringstream \<Rightarrow> real \<Rightarrow> real \<times> istringstream) \<Rightarrow> (string \<Rightarrow> string) \<Rightarrow> 32 word \<Rightarrow>
   (char \<times> string option) list \<Rightarrow> string list \<Rightarrow> run" where
  "overlapMain extract_double stripFilename DEFAULT_MIN_OVERLAP getopts operands =
     (case parseOverlapOptions extract_double stripFilename getopts operands
             (opt_initial DEFAULT_MIN_OVERLAP) of
        Inl code \<Rightarrow> Exited code
      | Inr opts \<Rightarrow>
          if opt_outputType opts \<noteq> OT_ASQG then AssertionFailed
          else Returned
                 [if sint (opt_numThreads opts) \<le> 1 then ComputeHitsSerial
                  else ComputeHitsParallel,
                  ConvertHitsToASQG])"

subsection \<open>Example data\<close>

text \<open>
  Two reads and their reverse complements, the index of each table, and a block as a
  default constructor that zeroes every field would leave it.
\<close>

definition exFwdRT :: ReadTable where
  "exFwdRT = [\<lparr>id_item = ''r0'', seq_item = ''ACGTACGT''\<rparr>,
              \<lparr>id_item = ''r1'', seq_item = ''TTTTACGT''\<rparr>]"

definition exRevRT :: ReadTable where
  "exRevRT = [\<lparr>id_item = ''r0'', seq_item = ''ACGTACGT''\<rparr>,
              \<lparr>id_item = ''r1'', seq_item = ''ACGTAAAA''\<rparr>]"

definition exFwdSAI :: SuffixArray where
  "exFwdSAI = [SAElem 0, SAElem 1]"

definition exRevSAI :: SuffixArray where
  "exRevSAI = [SAElem 0, SAElem 1]"

definition zeroBlock :: OverlapBlock where
  "zeroBlock = \<lparr>interval0_lower = 0, interval0_upper = 0, overlapLen = 0, numDiff = 0,
                flags = \<lparr>isQueryRev = False, isTargetRev = False\<rparr>\<rparr>"

definition exOverlap :: Overlap where
  "exOverlap = \<lparr>id0 = ''r1'', id1 = ''r0'',
      match = \<lparr>coord0 = \<lparr>interval_start = 4, interval_end = 7, seqlen = 8\<rparr>,
               coord1 = \<lparr>interval_start = 4, interval_end = 7, seqlen = 8\<rparr>,
               isRC = True, match_numDiff = 0\<rparr>\<rparr>"

definition exBlock :: OverlapBlock where
  "exBlock = \<lparr>interval0_lower = 0, interval0_upper = 1, overlapLen = 4, numDiff = 0,
              flags = \<lparr>isQueryRev = False, isTargetRev = True\<rparr>\<rparr>"

definition exContained :: Overlap where
  "exContained = \<lparr>id0 = ''r1'', id1 = ''r0'',
      match = \<lparr>coord0 = \<lparr>interval_start = 2, interval_end = 5, seqlen = 8\<rparr>,
               coord1 = \<lparr>interval_start = 0, interval_end = 3, seqlen = 4\<rparr>,
               isRC = False, match_numDiff = 0\<rparr>\<rparr>"

definition exStreams :: streams where
  "exStreams = \<lparr>containHandle = [], overlapHandle = [], cerr = []\<rparr>"

definition exImproper :: Overlap where
  "exImproper = \<lparr>id0 = ''r1'', id1 = ''r0'',
      match = \<lparr>coord0 = \<lparr>interval_start = 5, interval_end = 9, seqlen = 10\<rparr>,
               coord1 = \<lparr>interval_start = 0, interval_end = 4, seqlen = 10\<rparr>,
               isRC = True, match_numDiff = 0\<rparr>\<rparr>"

definition exProper :: Overlap where
  "exProper = \<lparr>id0 = ''r1'', id1 = ''r0'',
      match = \<lparr>coord0 = \<lparr>interval_start = 5, interval_end = 9, seqlen = 10\<rparr>,
               coord1 = \<lparr>interval_start = 0, interval_end = 4, seqlen = 10\<rparr>,
               isRC = False, match_numDiff = 0\<rparr>\<rparr>"

text \<open>
  Three reads of different lengths and their reverse complements, one index for both
  tables, and a hit line for the read at index 2: a block on the forward index over the three
  positions, a block with the query reversed and a block on the reverse index, the last two
  with an overlap as long as the query. \<open>ex3OverlapA\<close> and \<open>ex3OverlapC\<close> are
  the two overlaps it yields.
\<close>

definition ex3FwdRT :: ReadTable where
  "ex3FwdRT = [\<lparr>id_item = ''r0'', seq_item = ''ACGTACGT''\<rparr>,
               \<lparr>id_item = ''r9'', seq_item = ''ACGT''\<rparr>,
               \<lparr>id_item = ''r5'', seq_item = ''TTACGT''\<rparr>]"

definition ex3RevRT :: ReadTable where
  "ex3RevRT = [\<lparr>id_item = ''r0'', seq_item = ''ACGTACGT''\<rparr>,
               \<lparr>id_item = ''r9'', seq_item = ''ACGT''\<rparr>,
               \<lparr>id_item = ''r5'', seq_item = ''ACGTAA''\<rparr>]"

definition ex3SAI :: SuffixArray where
  "ex3SAI = [SAElem 0, SAElem 1, SAElem 2]"

definition ex3Line :: string where
  "ex3Line = ''2 3 0 2 4 0 00 0 0 6 1 10 0 0 6 2 01''"

definition ex3BlockA :: OverlapBlock where
  "ex3BlockA = \<lparr>interval0_lower = 0, interval0_upper = 2, overlapLen = 4, numDiff = 0,
                flags = \<lparr>isQueryRev = False, isTargetRev = False\<rparr>\<rparr>"

definition ex3BlockB :: OverlapBlock where
  "ex3BlockB = \<lparr>interval0_lower = 0, interval0_upper = 0, overlapLen = 6, numDiff = 1,
                flags = \<lparr>isQueryRev = True, isTargetRev = False\<rparr>\<rparr>"

definition ex3BlockC :: OverlapBlock where
  "ex3BlockC = \<lparr>interval0_lower = 0, interval0_upper = 0, overlapLen = 6, numDiff = 2,
                flags = \<lparr>isQueryRev = False, isTargetRev = True\<rparr>\<rparr>"

definition ex3OverlapA :: Overlap where
  "ex3OverlapA = \<lparr>id0 = ''r5'', id1 = ''r0'',
      match = \<lparr>coord0 = \<lparr>interval_start = 2, interval_end = 5, seqlen = 6\<rparr>,
               coord1 = \<lparr>interval_start = 0, interval_end = 3, seqlen = 8\<rparr>,
               isRC = False, match_numDiff = 0\<rparr>\<rparr>"

definition ex3OverlapC :: Overlap where
  "ex3OverlapC = \<lparr>id0 = ''r5'', id1 = ''r0'',
      match = \<lparr>coord0 = \<lparr>interval_start = 0, interval_end = 5, seqlen = 6\<rparr>,
               coord1 = \<lparr>interval_start = 2, interval_end = 7, seqlen = 8\<rparr>,
               isRC = True, match_numDiff = 2\<rparr>\<rparr>"

section \<open>Properties\<close>

subsection \<open>Evaluation of the examples\<close>

lemmas eval_defs = hitStringToOverlaps_def extract_size_t_def extract_unsigned_def sentry_def
  istringstream_of_def scan_integer_def isspace_def isdigit_def digits_value_def
  digit_value_def extractOverlapBlock_def extract_int64_def extract_int_def extract_signed_def
  extract_flags_def
  forRange.simps positionBody_def getRead_def get_sa_def buildOverlap_def
  mkSeqCoord_def mkOverlap_def flip_def length32_def isContainment_def isContained_def
  exFwdRT_def exRevRT_def exFwdSAI_def exRevSAI_def zeroBlock_def

lemmas parse_defs = extract_size_t_def extract_unsigned_def sentry_def
  istringstream_of_def scan_integer_def isspace_def isdigit_def digits_value_def
  digit_value_def extractOverlapBlock_def extract_int64_def extract_int_def extract_signed_def
  extract_flags_def zeroBlock_def

lemmas pos_defs = blockOverlaps_def positionOverlaps_def queryAt_def targetAt_def discardRule_def
  buildOverlap_def mkOverlap_def mkSeqCoord_def flip_def length32_def isContained_def

lemmas ex3_defs = ex3BlockA_def ex3BlockB_def ex3BlockC_def ex3FwdRT_def ex3RevRT_def
  ex3SAI_def ex3OverlapA_def ex3OverlapC_def

lemmas coord_defs = isContained_def isExtreme_def isLeftExtreme_def isRightExtreme_def

subsection \<open>The loops of hitStringToOverlaps\<close>

lemma buildOverlap_sel:
  "id0 (buildOverlap record query target) = id_item query"
  "id1 (buildOverlap record query target) = id_item target"
  by (simp_all add: buildOverlap_def mkOverlap_def Let_def)

lemma positionBody_found:
  assumes "getRead (if isTargetRev (flags record) then pRevRT else pFwdRT) readIdx = Inr query"
    and "get_sa (if isTargetRev (flags record) then pRevSAI else pFwdSAI) j = Inr elem"
    and "getRead (if isTargetRev (flags record) then pRevRT else pFwdRT) (getID elem) = Inr target"
  shows "positionBody readIdx record pFwdRT pRevRT pFwdSAI pRevSAI j outvec =
         (if id_item query \<noteq> id_item target
          then if id_item query < id_item target \<or>
                  (isContainment (match (buildOverlap record query target)) \<and>
                   isQueryRev (flags record))
               then Inr outvec
               else Inr (outvec @ [buildOverlap record query target])
          else Inr outvec)"
  using assms by (simp add: positionBody_def Let_def buildOverlap_sel)

lemma positionBody_Inr:
  assumes "positionBody readIdx record pFwdRT pRevRT pFwdSAI pRevSAI j outvec = Inr r"
  shows "r = outvec \<or>
         (\<exists>query target. r = outvec @ [buildOverlap record query target] \<and>
            id_item query \<noteq> id_item target \<and> \<not> id_item query < id_item target)"
  using assms
  by (auto simp: positionBody_def Let_def buildOverlap_sel split: sum.splits if_splits)

lemma forRange_Inr:
  "forRange body j upper acc = Inr r \<Longrightarrow> P acc \<Longrightarrow>
   (\<And>i a a'. body i a = Inr a' \<Longrightarrow> P a \<Longrightarrow> P a') \<Longrightarrow> P r"
proof (induction body j upper acc rule: forRange.induct)
  case (1 body j upper acc)
  show ?case
  proof (cases "j \<le> upper")
    case True
    with "1.prems"(1) obtain acc' where b: "body j acc = Inr acc'"
      and r: "forRange body (j + 1) upper acc' = Inr r"
      by (subst (asm) forRange.simps) (auto split: sum.splits)
    from "1.prems"(3) [OF b "1.prems"(2)] have "P acc'" .
    with "1.IH" [OF True b r] "1.prems"(3) show ?thesis by blast
  next
    case False
    with "1.prems" show ?thesis
      by (subst (asm) forRange.simps) simp
  qed
qed

lemma blockLoop_Inr:
  assumes "blockLoop readBlock readIdx pFwdRT pRevRT pFwdSAI pRevSAI n convertor outvec = Inr r"
    and "P outvec"
    and "\<And>record i a a'. positionBody readIdx record pFwdRT pRevRT pFwdSAI pRevSAI i a = Inr a'
           \<Longrightarrow> P a \<Longrightarrow> P a'"
  shows "P r"
  using assms(1,2)
proof (induction n arbitrary: convertor outvec)
  case 0
  then show ?case by simp
next
  case (Suc n)
  obtain blk convertor' where rb: "readBlock convertor = (blk, convertor')"
    by (cases "readBlock convertor")
  with Suc.prems(1) obtain outvec' where
    f: "forRange (positionBody readIdx blk pFwdRT pRevRT pFwdSAI pRevSAI)
          (interval0_lower blk) (interval0_upper blk) outvec = Inr outvec'"
    and l: "blockLoop readBlock readIdx pFwdRT pRevRT pFwdSAI pRevSAI n convertor' outvec' = Inr r"
    by (auto split: sum.splits)
  have "P outvec'"
    using f Suc.prems(2) by (rule forRange_Inr) (rule assms(3))
  with Suc.IH [OF l] show ?case .
qed

lemma hitStringToOverlaps_all:
  assumes "hitStringToOverlaps readBlock readIdx0 numBlocks0 hitString pFwdRT pRevRT pFwdSAI pRevSAI
             = Inr ovs"
    and "\<And>readIdx record i a a'.
           positionBody readIdx record pFwdRT pRevRT pFwdSAI pRevSAI i a = Inr a'
           \<Longrightarrow> \<forall>ov\<in>set a. Q ov \<Longrightarrow> \<forall>ov\<in>set a'. Q ov"
  shows "\<forall>ov\<in>set ovs. Q ov"
proof -
  from assms(1) obtain readIdx numBlocks convertor where
    "blockLoop readBlock readIdx pFwdRT pRevRT pFwdSAI pRevSAI numBlocks convertor [] = Inr ovs"
    by (auto simp: hitStringToOverlaps_def Let_def split: prod.splits)
  then show ?thesis
    by (rule blockLoop_Inr) (simp, rule assms(2))
qed

lemma ex_retained:
  "hitStringToOverlaps (extractOverlapBlock zeroBlock) 0 0 ''1 1 0 1 4 0 01''
     exFwdRT exRevRT exFwdSAI exRevSAI = Inr [exOverlap]"
  by (simp add: eval_defs exOverlap_def)

subsection \<open>The result of hitStringToOverlaps without its loops\<close>

lemma positionBody_resolves:
  "positionBody readIdx record pFwdRT pRevRT pFwdSAI pRevSAI j outvec =
     (if resolves readIdx record pFwdRT pRevRT pFwdSAI pRevSAI j
      then Inr (outvec @ positionOverlaps readIdx record pFwdRT pRevRT pFwdSAI pRevSAI j)
      else Inl IndexConsistencyError)"
  by (simp add: positionBody_def resolves_def positionOverlaps_def queryAt_def targetAt_def
        discardRule_def getRead_def get_sa_def isContainment_def Let_def buildOverlap_sel)

lemma atLeastAtMost_int_rec: "j \<le> upper \<Longrightarrow> {j..upper} = insert j {j + 1..upper}" for j :: int
  by auto

lemma forRange_append:
  "(\<And>i a. body i a = (if ok i then Inr (a @ f i) else Inl e)) \<Longrightarrow>
   forRange body j upper acc =
     (if \<forall>i\<in>{j..upper}. ok i then Inr (acc @ concat (map f [j..upper])) else Inl e)"
proof (induction body j upper acc rule: forRange.induct)
  case (1 body j upper acc)
  show ?case
  proof (cases "j \<le> upper")
    case False
    then show ?thesis by (subst forRange.simps) simp
  next
    case True
    note le = this
    show ?thesis
    proof (cases "ok j")
      case False
      with le "1.prems" show ?thesis
        by (subst forRange.simps) (auto simp: atLeastAtMost_int_rec)
    next
      case True
      then have b: "body j acc = Inr (acc @ f j)" by (simp add: "1.prems")
      have "forRange body j upper acc = forRange body (j + 1) upper (acc @ f j)"
        using le b by (subst forRange.simps) simp
      also have "\<dots> = (if \<forall>i\<in>{j + 1..upper}. ok i
                        then Inr ((acc @ f j) @ concat (map f [j + 1..upper])) else Inl e)"
        using "1.IH" [OF le b] "1.prems" by blast
      also have "\<dots> = (if \<forall>i\<in>{j..upper}. ok i
                        then Inr (acc @ concat (map f [j..upper])) else Inl e)"
        using le True by (simp add: atLeastAtMost_int_rec upto_rec1)
      finally show ?thesis .
    qed
  qed
qed

lemma blockLoop_append:
  "blockLoop readBlock readIdx pFwdRT pRevRT pFwdSAI pRevSAI n convertor outvec =
     (if \<forall>record\<in>set (readBlocks readBlock n convertor).
           \<forall>j\<in>{interval0_lower record..interval0_upper record}.
             resolves readIdx record pFwdRT pRevRT pFwdSAI pRevSAI j
      then Inr (outvec @ concat (map (blockOverlaps readIdx pFwdRT pRevRT pFwdSAI pRevSAI)
                                   (readBlocks readBlock n convertor)))
      else Inl IndexConsistencyError)"
proof (induction n arbitrary: convertor outvec)
  case 0
  show ?case by simp
next
  case (Suc n)
  obtain blk convertor' where rb: "readBlock convertor = (blk, convertor')"
    by (cases "readBlock convertor")
  have f: "forRange (positionBody readIdx blk pFwdRT pRevRT pFwdSAI pRevSAI)
             (interval0_lower blk) (interval0_upper blk) outvec =
           (if \<forall>j\<in>{interval0_lower blk..interval0_upper blk}.
                 resolves readIdx blk pFwdRT pRevRT pFwdSAI pRevSAI j
            then Inr (outvec @ blockOverlaps readIdx pFwdRT pRevRT pFwdSAI pRevSAI blk)
            else Inl IndexConsistencyError)"
    unfolding blockOverlaps_def by (rule forRange_append) (rule positionBody_resolves)
  show ?case
    by (simp add: rb f Suc.IH)
qed

lemma hitStringToOverlaps_append:
  "hitStringToOverlaps readBlock readIdx0 numBlocks0 hitString pFwdRT pRevRT pFwdSAI pRevSAI =
     (if \<forall>record\<in>set (hitBlocks readBlock readIdx0 numBlocks0 hitString).
           \<forall>j\<in>{interval0_lower record..interval0_upper record}.
             resolves (hitReadIdx readIdx0 hitString) record pFwdRT pRevRT pFwdSAI pRevSAI j
      then Inr (concat (map (blockOverlaps (hitReadIdx readIdx0 hitString)
                               pFwdRT pRevRT pFwdSAI pRevSAI)
                          (hitBlocks readBlock readIdx0 numBlocks0 hitString)))
      else Inl IndexConsistencyError)"
  by (simp add: hitStringToOverlaps_def hitBlocks_def hitReadIdx_def hitNumBlocks_def Let_def
        blockLoop_append split: prod.splits)

lemma hitStringToOverlaps_Inr_iff:
  "hitStringToOverlaps readBlock readIdx0 numBlocks0 hitString pFwdRT pRevRT pFwdSAI pRevSAI = Inr ovs
   \<longleftrightarrow>
     (\<forall>record\<in>set (hitBlocks readBlock readIdx0 numBlocks0 hitString).
        \<forall>j\<in>{interval0_lower record..interval0_upper record}.
          resolves (hitReadIdx readIdx0 hitString) record pFwdRT pRevRT pFwdSAI pRevSAI j) \<and>
     ovs = concat (map (blockOverlaps (hitReadIdx readIdx0 hitString)
                          pFwdRT pRevRT pFwdSAI pRevSAI)
                     (hitBlocks readBlock readIdx0 numBlocks0 hitString))"
  by (simp add: hitStringToOverlaps_append eq_commute)

lemma positionOverlaps_mem:
  "ov \<in> set (positionOverlaps readIdx record pFwdRT pRevRT pFwdSAI pRevSAI j) \<longleftrightarrow>
     id_item (queryAt readIdx record pFwdRT pRevRT) \<noteq>
       id_item (targetAt record pFwdRT pRevRT pFwdSAI pRevSAI j) \<and>
     \<not> discardRule record (buildOverlap record (queryAt readIdx record pFwdRT pRevRT)
                             (targetAt record pFwdRT pRevRT pFwdSAI pRevSAI j)) \<and>
     ov = buildOverlap record (queryAt readIdx record pFwdRT pRevRT)
            (targetAt record pFwdRT pRevRT pFwdSAI pRevSAI j)"
  by (auto simp: positionOverlaps_def Let_def)

lemma hitStringToOverlaps_mem:
  assumes "hitStringToOverlaps readBlock readIdx0 numBlocks0 hitString pFwdRT pRevRT pFwdSAI pRevSAI
             = Inr ovs"
  shows "ov \<in> set ovs \<longleftrightarrow>
     (\<exists>record\<in>set (hitBlocks readBlock readIdx0 numBlocks0 hitString).
        \<exists>j\<in>{interval0_lower record..interval0_upper record}.
          ov \<in> set (positionOverlaps (hitReadIdx readIdx0 hitString) record
                      pFwdRT pRevRT pFwdSAI pRevSAI j))"
  using assms by (auto simp: hitStringToOverlaps_Inr_iff blockOverlaps_def)

lemma positionBody_nonself:
  assumes "resolves readIdx record pFwdRT pRevRT pFwdSAI pRevSAI j"
    and "id_item (queryAt readIdx record pFwdRT pRevRT) \<noteq>
         id_item (targetAt record pFwdRT pRevRT pFwdSAI pRevSAI j)"
  shows "positionBody readIdx record pFwdRT pRevRT pFwdSAI pRevSAI j outvec =
      Inr (if discardRule record (buildOverlap record (queryAt readIdx record pFwdRT pRevRT)
                                    (targetAt record pFwdRT pRevRT pFwdSAI pRevSAI j))
           then outvec
           else outvec @ [buildOverlap record (queryAt readIdx record pFwdRT pRevRT)
                            (targetAt record pFwdRT pRevRT pFwdSAI pRevSAI j)])"
  using assms by (simp add: positionBody_resolves positionOverlaps_def Let_def)

lemma buildOverlap_spec: "buildOverlap record query target = specOverlap record query target"
  by (simp add: buildOverlap_def specOverlap_def mkOverlap_def Let_def)


subsection \<open>Extraction of the two numbers of a line\<close>





subsection \<open>The example line\<close>

lemma Ball_upto: "(\<forall>j\<in>{lo..up}. P j) \<longleftrightarrow> list_all P [lo..up]"
  by (simp add: list_all_iff)

lemma ex3_readIdx: "hitReadIdx 0 ex3Line = 2"
  by (simp add: hitReadIdx_def ex3Line_def parse_defs)

lemma ex3_numBlocks: "hitNumBlocks 0 0 ex3Line = 3"
  by (simp add: hitNumBlocks_def ex3Line_def parse_defs)

lemma ex3_blocks:
  "hitBlocks (extractOverlapBlock zeroBlock) 0 0 ex3Line = [ex3BlockA, ex3BlockB, ex3BlockC]"
  unfolding hitBlocks_def ex3_numBlocks numeral_3_eq_3
  by (simp add: ex3Line_def parse_defs ex3BlockA_def ex3BlockB_def ex3BlockC_def)

lemma ex3_resolves:
  "\<forall>record\<in>set [ex3BlockA, ex3BlockB, ex3BlockC].
     \<forall>j\<in>{interval0_lower record..interval0_upper record}.
       resolves 2 record ex3FwdRT ex3RevRT ex3SAI ex3SAI j"
  by (simp add: ex3_defs resolves_def Ball_upto upto.simps)

lemma ex3_overlaps:
  "blockOverlaps 2 ex3FwdRT ex3RevRT ex3SAI ex3SAI ex3BlockA = [ex3OverlapA]"
  "blockOverlaps 2 ex3FwdRT ex3RevRT ex3SAI ex3SAI ex3BlockB = []"
  "blockOverlaps 2 ex3FwdRT ex3RevRT ex3SAI ex3SAI ex3BlockC = [ex3OverlapC]"
  by (simp_all add: pos_defs ex3_defs upto.simps)

lemma ex3_result:
  "hitStringToOverlaps (extractOverlapBlock zeroBlock) 0 0 ex3Line ex3FwdRT ex3RevRT ex3SAI ex3SAI
     = Inr [ex3OverlapA, ex3OverlapC]"
  using ex3_resolves
  by (simp add: hitStringToOverlaps_append ex3_readIdx ex3_blocks ex3_overlaps)

subsection \<open>Claims on hitStringToOverlaps\<close>

text \<open>
  Claim C1. The result of \<^verbatim>\<open>hitStringToOverlaps\<close> is, when every position of every
  block of the line resolves, exactly the overlaps that the positions contribute by the
  deduplication rule, block after block and position after position (and the run stops in a
  failed lookup otherwise). So the overlap built at a position whose target id differs from
  the query id is left out of the result exactly when the id of the query is lower than the
  id of the target, or a coordinate is contained and the query flag of the block says
  reverse, and is in the result otherwise. The same holds of one turn of the loop: it leaves
  the vector as it is in the first case and appends the overlap in the second.
\<close>

theorem dedup_rule:
  "hitStringToOverlaps readBlock readIdx0 numBlocks0 hitString pFwdRT pRevRT pFwdSAI pRevSAI =
     (if \<forall>record\<in>set (hitBlocks readBlock readIdx0 numBlocks0 hitString).
           \<forall>j\<in>{interval0_lower record..interval0_upper record}.
             resolves (hitReadIdx readIdx0 hitString) record pFwdRT pRevRT pFwdSAI pRevSAI j
      then Inr (concat (map (blockOverlaps (hitReadIdx readIdx0 hitString)
                               pFwdRT pRevRT pFwdSAI pRevSAI)
                          (hitBlocks readBlock readIdx0 numBlocks0 hitString)))
      else Inl IndexConsistencyError) \<and>
   (resolves readIdx record pFwdRT pRevRT pFwdSAI pRevSAI j \<longrightarrow>
    id_item (queryAt readIdx record pFwdRT pRevRT) \<noteq>
      id_item (targetAt record pFwdRT pRevRT pFwdSAI pRevSAI j) \<longrightarrow>
    positionBody readIdx record pFwdRT pRevRT pFwdSAI pRevSAI j outvec =
      Inr (if id_item (queryAt readIdx record pFwdRT pRevRT) <
                id_item (targetAt record pFwdRT pRevRT pFwdSAI pRevSAI j) \<or>
              ((isContained (coord0 (match (buildOverlap record
                   (queryAt readIdx record pFwdRT pRevRT)
                   (targetAt record pFwdRT pRevRT pFwdSAI pRevSAI j)))) \<or>
                isContained (coord1 (match (buildOverlap record
                   (queryAt readIdx record pFwdRT pRevRT)
                   (targetAt record pFwdRT pRevRT pFwdSAI pRevSAI j))))) \<and>
               isQueryRev (flags record))
           then outvec
           else outvec @ [buildOverlap record (queryAt readIdx record pFwdRT pRevRT)
                            (targetAt record pFwdRT pRevRT pFwdSAI pRevSAI j)]))"
  by (simp add: hitStringToOverlaps_append positionBody_nonself discardRule_def buildOverlap_sel)

theorem dedup_rule_witness:
  "hitStringToOverlaps (extractOverlapBlock zeroBlock) 0 0 ex3Line ex3FwdRT ex3RevRT ex3SAI ex3SAI
     = Inr [ex3OverlapA, ex3OverlapC] \<and>
   resolves 2 ex3BlockA ex3FwdRT ex3RevRT ex3SAI ex3SAI 1 \<and>
   positionBody 2 ex3BlockA ex3FwdRT ex3RevRT ex3SAI ex3SAI 1 [ex3OverlapA] = Inr [ex3OverlapA] \<and>
   resolves 2 ex3BlockB ex3FwdRT ex3RevRT ex3SAI ex3SAI 0 \<and>
   positionBody 2 ex3BlockB ex3FwdRT ex3RevRT ex3SAI ex3SAI 0 [ex3OverlapA] = Inr [ex3OverlapA] \<and>
   resolves 2 ex3BlockC ex3FwdRT ex3RevRT ex3SAI ex3SAI 0 \<and>
   positionBody 2 ex3BlockC ex3FwdRT ex3RevRT ex3SAI ex3SAI 0 [ex3OverlapA] =
     Inr [ex3OverlapA, ex3OverlapC]"
proof -
  have r: "resolves 2 ex3BlockA ex3FwdRT ex3RevRT ex3SAI ex3SAI 1"
    "resolves 2 ex3BlockB ex3FwdRT ex3RevRT ex3SAI ex3SAI 0"
    "resolves 2 ex3BlockC ex3FwdRT ex3RevRT ex3SAI ex3SAI 0"
    by (simp_all add: resolves_def ex3_defs)
  note t = dedup_rule [of "extractOverlapBlock zeroBlock" 0 0 ex3Line ex3FwdRT ex3RevRT ex3SAI ex3SAI
      2 _ _ "[ex3OverlapA]"]
  have 1: "hitStringToOverlaps (extractOverlapBlock zeroBlock) 0 0 ex3Line ex3FwdRT ex3RevRT
             ex3SAI ex3SAI = Inr [ex3OverlapA, ex3OverlapC]"
    using t [THEN conjunct1] ex3_resolves by (simp add: ex3_readIdx ex3_blocks ex3_overlaps)
  have a: "positionBody 2 ex3BlockA ex3FwdRT ex3RevRT ex3SAI ex3SAI 1 [ex3OverlapA] =
             Inr [ex3OverlapA]"
    using t [of ex3BlockA 1, THEN conjunct2] r(1)
    by (simp add: queryAt_def targetAt_def ex3_defs)
  have b: "positionBody 2 ex3BlockB ex3FwdRT ex3RevRT ex3SAI ex3SAI 0 [ex3OverlapA] =
             Inr [ex3OverlapA]"
    using t [of ex3BlockB 0, THEN conjunct2] r(2)
    by (simp add: queryAt_def targetAt_def ex3_defs buildOverlap_def mkOverlap_def mkSeqCoord_def
          flip_def length32_def isContained_def)
  have c: "positionBody 2 ex3BlockC ex3FwdRT ex3RevRT ex3SAI ex3SAI 0 [ex3OverlapA] =
             Inr [ex3OverlapA, ex3OverlapC]"
    using t [of ex3BlockC 0, THEN conjunct2] r(3)
    by (simp add: queryAt_def targetAt_def ex3_defs buildOverlap_def mkOverlap_def mkSeqCoord_def
          flip_def length32_def isContained_def)
  from 1 r a b c show ?thesis by simp
qed

text \<open>
  Claim C2. Every overlap that \<^verbatim>\<open>hitStringToOverlaps\<close> returns is the overlap of the
  design for a block of the line and a position of it that resolves to two reads with
  different ids: \<open>coordA\<close> from \<open>len(query) - overlapLength\<close> to \<open>len(query) - 1\<close>
  on \<open>len(query)\<close>, \<open>coordB\<close> from \<open>0\<close> to \<open>overlapLength - 1\<close> on
  \<open>len(target)\<close>, each flipped when its flag says reverse, and the strand flag the
  exclusive or of the two. Conversely the overlap of the design for such a position is
  returned unless the deduplication rule discards it, and one turn of the loop tests and
  appends this very overlap. The arithmetic is that of \<^verbatim>\<open>int\<close>.
\<close>

theorem overlap_coordinates:
  "(hitStringToOverlaps readBlock readIdx0 numBlocks0 hitString pFwdRT pRevRT pFwdSAI pRevSAI = Inr ovs
    \<longrightarrow>
     (\<forall>ov\<in>set ovs.
        \<exists>record\<in>set (hitBlocks readBlock readIdx0 numBlocks0 hitString).
          \<exists>j\<in>{interval0_lower record..interval0_upper record}.
            resolves (hitReadIdx readIdx0 hitString) record pFwdRT pRevRT pFwdSAI pRevSAI j \<and>
            id_item (queryAt (hitReadIdx readIdx0 hitString) record pFwdRT pRevRT) \<noteq>
              id_item (targetAt record pFwdRT pRevRT pFwdSAI pRevSAI j) \<and>
            ov = specOverlap record (queryAt (hitReadIdx readIdx0 hitString) record pFwdRT pRevRT)
                   (targetAt record pFwdRT pRevRT pFwdSAI pRevSAI j)) \<and>
     (\<forall>record\<in>set (hitBlocks readBlock readIdx0 numBlocks0 hitString).
        \<forall>j\<in>{interval0_lower record..interval0_upper record}.
          id_item (queryAt (hitReadIdx readIdx0 hitString) record pFwdRT pRevRT) \<noteq>
            id_item (targetAt record pFwdRT pRevRT pFwdSAI pRevSAI j) \<and>
          \<not> discardRule record
               (specOverlap record (queryAt (hitReadIdx readIdx0 hitString) record pFwdRT pRevRT)
                  (targetAt record pFwdRT pRevRT pFwdSAI pRevSAI j)) \<longrightarrow>
          specOverlap record (queryAt (hitReadIdx readIdx0 hitString) record pFwdRT pRevRT)
            (targetAt record pFwdRT pRevRT pFwdSAI pRevSAI j) \<in> set ovs)) \<and>
   (resolves readIdx record pFwdRT pRevRT pFwdSAI pRevSAI j \<longrightarrow>
    id_item (queryAt readIdx record pFwdRT pRevRT) \<noteq>
      id_item (targetAt record pFwdRT pRevRT pFwdSAI pRevSAI j) \<longrightarrow>
    positionBody readIdx record pFwdRT pRevRT pFwdSAI pRevSAI j outvec =
      Inr (if discardRule record
                (specOverlap record (queryAt readIdx record pFwdRT pRevRT)
                   (targetAt record pFwdRT pRevRT pFwdSAI pRevSAI j))
           then outvec
           else outvec @ [specOverlap record (queryAt readIdx record pFwdRT pRevRT)
                            (targetAt record pFwdRT pRevRT pFwdSAI pRevSAI j)]))"
proof (intro conjI impI ballI)
  fix ov
  assume h: "hitStringToOverlaps readBlock readIdx0 numBlocks0 hitString pFwdRT pRevRT pFwdSAI
               pRevSAI = Inr ovs"
    and "ov \<in> set ovs"
  then obtain blk j where b: "blk \<in> set (hitBlocks readBlock readIdx0 numBlocks0 hitString)"
    and j: "j \<in> {interval0_lower blk..interval0_upper blk}"
    and m: "ov \<in> set (positionOverlaps (hitReadIdx readIdx0 hitString) blk
                        pFwdRT pRevRT pFwdSAI pRevSAI j)"
    by (auto simp: hitStringToOverlaps_mem)
  from h b j have "resolves (hitReadIdx readIdx0 hitString) blk pFwdRT pRevRT pFwdSAI pRevSAI j"
    by (simp add: hitStringToOverlaps_Inr_iff)
  with m
  show "\<exists>record\<in>set (hitBlocks readBlock readIdx0 numBlocks0 hitString).
          \<exists>j\<in>{interval0_lower record..interval0_upper record}.
            resolves (hitReadIdx readIdx0 hitString) record pFwdRT pRevRT pFwdSAI pRevSAI j \<and>
            id_item (queryAt (hitReadIdx readIdx0 hitString) record pFwdRT pRevRT) \<noteq>
              id_item (targetAt record pFwdRT pRevRT pFwdSAI pRevSAI j) \<and>
            ov = specOverlap record (queryAt (hitReadIdx readIdx0 hitString) record pFwdRT pRevRT)
                   (targetAt record pFwdRT pRevRT pFwdSAI pRevSAI j)"
    by (intro bexI [OF _ b] bexI [OF _ j]) (simp add: positionOverlaps_mem buildOverlap_spec)
next
  fix blk j
  assume h: "hitStringToOverlaps readBlock readIdx0 numBlocks0 hitString pFwdRT pRevRT pFwdSAI
               pRevSAI = Inr ovs"
    and b: "blk \<in> set (hitBlocks readBlock readIdx0 numBlocks0 hitString)"
    and j: "j \<in> {interval0_lower blk..interval0_upper blk}"
    and r: "id_item (queryAt (hitReadIdx readIdx0 hitString) blk pFwdRT pRevRT) \<noteq>
              id_item (targetAt blk pFwdRT pRevRT pFwdSAI pRevSAI j) \<and>
            \<not> discardRule blk
                 (specOverlap blk (queryAt (hitReadIdx readIdx0 hitString) blk pFwdRT pRevRT)
                    (targetAt blk pFwdRT pRevRT pFwdSAI pRevSAI j))"
  then have "specOverlap blk (queryAt (hitReadIdx readIdx0 hitString) blk pFwdRT pRevRT)
               (targetAt blk pFwdRT pRevRT pFwdSAI pRevSAI j)
             \<in> set (positionOverlaps (hitReadIdx readIdx0 hitString) blk
                      pFwdRT pRevRT pFwdSAI pRevSAI j)"
    by (simp add: positionOverlaps_mem buildOverlap_spec)
  then show "specOverlap blk (queryAt (hitReadIdx readIdx0 hitString) blk pFwdRT pRevRT)
          (targetAt blk pFwdRT pRevRT pFwdSAI pRevSAI j) \<in> set ovs"
    unfolding hitStringToOverlaps_mem [OF h] by (intro bexI [OF _ b] bexI [OF _ j])
next
  assume "resolves readIdx record pFwdRT pRevRT pFwdSAI pRevSAI j"
    and "id_item (queryAt readIdx record pFwdRT pRevRT) \<noteq>
         id_item (targetAt record pFwdRT pRevRT pFwdSAI pRevSAI j)"
  then show "positionBody readIdx record pFwdRT pRevRT pFwdSAI pRevSAI j outvec =
      Inr (if discardRule record
                (specOverlap record (queryAt readIdx record pFwdRT pRevRT)
                   (targetAt record pFwdRT pRevRT pFwdSAI pRevSAI j))
           then outvec
           else outvec @ [specOverlap record (queryAt readIdx record pFwdRT pRevRT)
                            (targetAt record pFwdRT pRevRT pFwdSAI pRevSAI j)])"
    by (simp add: positionBody_nonself buildOverlap_spec)
qed

theorem overlap_coordinates_witness:
  "hitStringToOverlaps (extractOverlapBlock zeroBlock) 0 0 ex3Line ex3FwdRT ex3RevRT ex3SAI ex3SAI
     = Inr [ex3OverlapA, ex3OverlapC] \<and>
   ex3BlockC \<in> set (hitBlocks (extractOverlapBlock zeroBlock) 0 0 ex3Line) \<and>
   resolves 2 ex3BlockC ex3FwdRT ex3RevRT ex3SAI ex3SAI 0 \<and>
   queryAt 2 ex3BlockC ex3FwdRT ex3RevRT = \<lparr>id_item = ''r5'', seq_item = ''ACGTAA''\<rparr> \<and>
   targetAt ex3BlockC ex3FwdRT ex3RevRT ex3SAI ex3SAI 0 = \<lparr>id_item = ''r0'', seq_item = ''ACGTACGT''\<rparr> \<and>
   specOverlap ex3BlockC \<lparr>id_item = ''r5'', seq_item = ''ACGTAA''\<rparr>
     \<lparr>id_item = ''r0'', seq_item = ''ACGTACGT''\<rparr> = ex3OverlapC \<and>
   coord0 (match ex3OverlapC) = mkSeqCoord 0 5 6 \<and>
   coord1 (match ex3OverlapC) = flip (mkSeqCoord 0 5 8) \<and>
   ex3OverlapC \<in> set [ex3OverlapA, ex3OverlapC] \<and>
   positionBody 2 ex3BlockC ex3FwdRT ex3RevRT ex3SAI ex3SAI 0 [ex3OverlapA] =
     Inr [ex3OverlapA, ex3OverlapC]"
proof -
  have b: "ex3BlockC \<in> set (hitBlocks (extractOverlapBlock zeroBlock) 0 0 ex3Line)"
    by (simp add: ex3_blocks)
  have j: "(0::int) \<in> {interval0_lower ex3BlockC..interval0_upper ex3BlockC}"
    by (simp add: ex3BlockC_def)
  have r: "resolves 2 ex3BlockC ex3FwdRT ex3RevRT ex3SAI ex3SAI 0"
    by (simp add: resolves_def ex3_defs)
  have q: "queryAt 2 ex3BlockC ex3FwdRT ex3RevRT = \<lparr>id_item = ''r5'', seq_item = ''ACGTAA''\<rparr>"
    "targetAt ex3BlockC ex3FwdRT ex3RevRT ex3SAI ex3SAI 0 =
       \<lparr>id_item = ''r0'', seq_item = ''ACGTACGT''\<rparr>"
    by (simp_all add: queryAt_def targetAt_def ex3_defs)
  have s: "specOverlap ex3BlockC \<lparr>id_item = ''r5'', seq_item = ''ACGTAA''\<rparr>
             \<lparr>id_item = ''r0'', seq_item = ''ACGTACGT''\<rparr> = ex3OverlapC"
    by (simp add: specOverlap_def ex3_defs mkSeqCoord_def flip_def length32_def)
  have c: "coord0 (match ex3OverlapC) = mkSeqCoord 0 5 6"
    "coord1 (match ex3OverlapC) = flip (mkSeqCoord 0 5 8)"
    by (simp_all add: ex3OverlapC_def mkSeqCoord_def flip_def)
  have nd: "\<not> discardRule ex3BlockC ex3OverlapC"
    by (simp add: discardRule_def ex3_defs isContained_def)
  note t = overlap_coordinates [of "extractOverlapBlock zeroBlock" 0 0 ex3Line ex3FwdRT ex3RevRT ex3SAI ex3SAI
      "[ex3OverlapA, ex3OverlapC]" 2 ex3BlockC 0 "[ex3OverlapA]"]
  from t [THEN conjunct1, rule_format, OF ex3_result, THEN conjunct2, rule_format, OF b j]
  have m: "ex3OverlapC \<in> set [ex3OverlapA, ex3OverlapC]"
    using nd by (simp add: ex3_readIdx q s)
  from t [THEN conjunct2] r nd
  have p: "positionBody 2 ex3BlockC ex3FwdRT ex3RevRT ex3SAI ex3SAI 0 [ex3OverlapA] =
             Inr [ex3OverlapA, ex3OverlapC]"
    by (simp add: q s)
  from ex3_result b r q s c m p show ?thesis by simp
qed

text \<open>
  Claim C3. Every overlap that \<^verbatim>\<open>hitStringToOverlaps\<close> returns has
  \<open>idA \<ge> idB\<close>, for every line, every pair of read tables and every pair of indexes
  (and every extraction of a block).
\<close>

theorem canonical_ordering:
  assumes "hitStringToOverlaps readBlock readIdx0 numBlocks0 hitString pFwdRT pRevRT pFwdSAI pRevSAI
             = Inr ovs"
    and "ov \<in> set ovs"
  shows "id1 ov \<le> id0 ov"
proof -
  have "\<forall>ov\<in>set ovs. id1 ov \<le> id0 ov"
    using assms(1)
  proof (rule hitStringToOverlaps_all)
    fix readIdx blk i a a'
    assume "positionBody readIdx blk pFwdRT pRevRT pFwdSAI pRevSAI i a = Inr a'"
      and "\<forall>ov\<in>set a. id1 ov \<le> id0 ov"
    then show "\<forall>ov\<in>set a'. id1 ov \<le> id0 ov"
      by (auto dest!: positionBody_Inr simp: buildOverlap_sel)
  qed
  with assms(2) show ?thesis by blast
qed

theorem canonical_ordering_witness:
  "hitStringToOverlaps (extractOverlapBlock zeroBlock) 0 0 ''1 1 0 1 4 0 01''
     exFwdRT exRevRT exFwdSAI exRevSAI = Inr [exOverlap] \<and>
   exOverlap \<in> set [exOverlap] \<and> id1 exOverlap \<le> id0 exOverlap"
  using canonical_ordering [OF ex_retained, of exOverlap] ex_retained by simp

text \<open>
  Claim C4. A position whose target has the id of the query leaves the vector of overlaps
  as it is, and no overlap that \<^verbatim>\<open>hitStringToOverlaps\<close> returns pairs an id with
  itself.
\<close>

theorem self_match_excluded:
  "(getRead (if isTargetRev (flags record) then pRevRT else pFwdRT) readIdx = Inr query \<longrightarrow>
    get_sa (if isTargetRev (flags record) then pRevSAI else pFwdSAI) j = Inr elem \<longrightarrow>
    getRead (if isTargetRev (flags record) then pRevRT else pFwdRT) (getID elem) = Inr target \<longrightarrow>
    id_item query = id_item target \<longrightarrow>
    positionBody readIdx record pFwdRT pRevRT pFwdSAI pRevSAI j outvec = Inr outvec) \<and>
   (hitStringToOverlaps readBlock readIdx0 numBlocks0 hitString pFwdRT pRevRT pFwdSAI pRevSAI
      = Inr ovs \<longrightarrow> (\<forall>ov\<in>set ovs. id0 ov \<noteq> id1 ov))"
proof (intro conjI impI)
  assume "getRead (if isTargetRev (flags record) then pRevRT else pFwdRT) readIdx = Inr query"
    and "get_sa (if isTargetRev (flags record) then pRevSAI else pFwdSAI) j = Inr elem"
    and "getRead (if isTargetRev (flags record) then pRevRT else pFwdRT) (getID elem) = Inr target"
    and "id_item query = id_item target"
  then show "positionBody readIdx record pFwdRT pRevRT pFwdSAI pRevSAI j outvec = Inr outvec"
    by (simp add: positionBody_found)
next
  assume "hitStringToOverlaps readBlock readIdx0 numBlocks0 hitString pFwdRT pRevRT pFwdSAI pRevSAI
            = Inr ovs"
  then show "\<forall>ov\<in>set ovs. id0 ov \<noteq> id1 ov"
  proof (rule hitStringToOverlaps_all)
    fix readIdx blk i a a'
    assume "positionBody readIdx blk pFwdRT pRevRT pFwdSAI pRevSAI i a = Inr a'"
      and "\<forall>ov\<in>set a. id0 ov \<noteq> id1 ov"
    then show "\<forall>ov\<in>set a'. id0 ov \<noteq> id1 ov"
      by (auto dest!: positionBody_Inr simp: buildOverlap_sel)
  qed
qed

theorem self_match_excluded_witness:
  "getRead exFwdRT 1 = Inr \<lparr>id_item = ''r1'', seq_item = ''TTTTACGT''\<rparr> \<and>
   get_sa exFwdSAI 1 = Inr (SAElem 1) \<and>
   positionBody 1 zeroBlock exFwdRT exRevRT exFwdSAI exRevSAI 1 [] = Inr [] \<and>
   hitStringToOverlaps (extractOverlapBlock zeroBlock) 0 0 ''1 1 0 1 4 0 01''
     exFwdRT exRevRT exFwdSAI exRevSAI = Inr [exOverlap] \<and>
   id0 exOverlap \<noteq> id1 exOverlap"
proof -
  have 1: "getRead (if isTargetRev (flags zeroBlock) then exRevRT else exFwdRT) 1 =
             Inr \<lparr>id_item = ''r1'', seq_item = ''TTTTACGT''\<rparr>"
    by (simp add: getRead_def exFwdRT_def zeroBlock_def)
  have 2: "get_sa (if isTargetRev (flags zeroBlock) then exRevSAI else exFwdSAI) 1 = Inr (SAElem 1)"
    by (simp add: get_sa_def exFwdSAI_def zeroBlock_def)
  have 3: "getRead (if isTargetRev (flags zeroBlock) then exRevRT else exFwdRT) (getID (SAElem 1)) =
             Inr \<lparr>id_item = ''r1'', seq_item = ''TTTTACGT''\<rparr>"
    by (simp add: getRead_def exFwdRT_def zeroBlock_def)
  from self_match_excluded [of zeroBlock exRevRT exFwdRT 1 "\<lparr>id_item = ''r1'', seq_item = ''TTTTACGT''\<rparr>"
              exRevSAI exFwdSAI 1 "SAElem 1" "\<lparr>id_item = ''r1'', seq_item = ''TTTTACGT''\<rparr>" "[]"
              "extractOverlapBlock zeroBlock" 0 0 "''1 1 0 1 4 0 01''" "[exOverlap]"]
    1 2 3 ex_retained
  show ?thesis by (simp add: zeroBlock_def)
qed




text \<open>
  Claim C9, as the code has it. Every overlap that \<^verbatim>\<open>hitStringToOverlaps\<close> returns
  comes from a block of the line and a position of it that resolves; its \<open>idB\<close> is the
  id of the target read found there, and its \<open>coordB\<close> is the interval
  \<open>[0, overlapLength - 1]\<close> on \<open>len(target)\<close>, anchored at 0, left as it is when the
  target flag of the block says forward (so \<open>coordB.start = 0\<close>) and flipped when it
  says reverse (so \<open>coordB.start = len(target) - overlapLength\<close> and
  \<open>coordB.end = len(target) - 1\<close>). In both cases \<open>coordB\<close> is extreme.
\<close>

theorem target_anchor:
  assumes "hitStringToOverlaps readBlock readIdx0 numBlocks0 hitString pFwdRT pRevRT pFwdSAI pRevSAI
             = Inr ovs"
    and "ov \<in> set ovs"
  shows "(\<exists>record\<in>set (hitBlocks readBlock readIdx0 numBlocks0 hitString).
           \<exists>j\<in>{interval0_lower record..interval0_upper record}.
             resolves (hitReadIdx readIdx0 hitString) record pFwdRT pRevRT pFwdSAI pRevSAI j \<and>
             id1 ov = id_item (targetAt record pFwdRT pRevRT pFwdSAI pRevSAI j) \<and>
             coord1 (match ov) =
               (if isTargetRev (flags record)
                then flip (mkSeqCoord 0 (overlapLen record - 1)
                       (length32 (seq_item (targetAt record pFwdRT pRevRT pFwdSAI pRevSAI j))))
                else mkSeqCoord 0 (overlapLen record - 1)
                       (length32 (seq_item (targetAt record pFwdRT pRevRT pFwdSAI pRevSAI j)))) \<and>
             interval_start (coord1 (match ov)) =
               (if isTargetRev (flags record)
                then length32 (seq_item (targetAt record pFwdRT pRevRT pFwdSAI pRevSAI j)) -
                     overlapLen record
                else 0) \<and>
             interval_end (coord1 (match ov)) =
               (if isTargetRev (flags record)
                then length32 (seq_item (targetAt record pFwdRT pRevRT pFwdSAI pRevSAI j)) - 1
                else overlapLen record - 1) \<and>
             seqlen (coord1 (match ov)) =
               length32 (seq_item (targetAt record pFwdRT pRevRT pFwdSAI pRevSAI j))) \<and>
         isExtreme (coord1 (match ov))"
proof -
  from assms obtain blk j where b: "blk \<in> set (hitBlocks readBlock readIdx0 numBlocks0 hitString)"
    and j: "j \<in> {interval0_lower blk..interval0_upper blk}"
    and m: "ov \<in> set (positionOverlaps (hitReadIdx readIdx0 hitString) blk
                        pFwdRT pRevRT pFwdSAI pRevSAI j)"
    by (auto simp: hitStringToOverlaps_mem)
  from assms(1) b j
  have r: "resolves (hitReadIdx readIdx0 hitString) blk pFwdRT pRevRT pFwdSAI pRevSAI j"
    by (simp add: hitStringToOverlaps_Inr_iff)
  from m have ov: "ov = specOverlap blk (queryAt (hitReadIdx readIdx0 hitString) blk pFwdRT pRevRT)
                          (targetAt blk pFwdRT pRevRT pFwdSAI pRevSAI j)"
    by (simp add: positionOverlaps_mem buildOverlap_spec)
  have e: "isExtreme (coord1 (match ov))"
    by (simp add: ov specOverlap_def mkSeqCoord_def flip_def isExtreme_def isLeftExtreme_def
          isRightExtreme_def)
  have "resolves (hitReadIdx readIdx0 hitString) blk pFwdRT pRevRT pFwdSAI pRevSAI j \<and>
        id1 ov = id_item (targetAt blk pFwdRT pRevRT pFwdSAI pRevSAI j) \<and>
        coord1 (match ov) =
          (if isTargetRev (flags blk)
           then flip (mkSeqCoord 0 (overlapLen blk - 1)
                  (length32 (seq_item (targetAt blk pFwdRT pRevRT pFwdSAI pRevSAI j))))
           else mkSeqCoord 0 (overlapLen blk - 1)
                  (length32 (seq_item (targetAt blk pFwdRT pRevRT pFwdSAI pRevSAI j)))) \<and>
        interval_start (coord1 (match ov)) =
          (if isTargetRev (flags blk)
           then length32 (seq_item (targetAt blk pFwdRT pRevRT pFwdSAI pRevSAI j)) - overlapLen blk
           else 0) \<and>
        interval_end (coord1 (match ov)) =
          (if isTargetRev (flags blk)
           then length32 (seq_item (targetAt blk pFwdRT pRevRT pFwdSAI pRevSAI j)) - 1
           else overlapLen blk - 1) \<and>
        seqlen (coord1 (match ov)) =
          length32 (seq_item (targetAt blk pFwdRT pRevRT pFwdSAI pRevSAI j))"
    using r by (simp add: ov specOverlap_def mkSeqCoord_def flip_def)
  with b j e show ?thesis by blast
qed

theorem target_anchor_witness:
  "hitStringToOverlaps (extractOverlapBlock zeroBlock) 0 0 ex3Line ex3FwdRT ex3RevRT ex3SAI ex3SAI
     = Inr [ex3OverlapA, ex3OverlapC] \<and>
   ex3OverlapC \<in> set [ex3OverlapA, ex3OverlapC] \<and>
   hitBlocks (extractOverlapBlock zeroBlock) 0 0 ex3Line = [ex3BlockA, ex3BlockB, ex3BlockC] \<and>
   targetAt ex3BlockC ex3FwdRT ex3RevRT ex3SAI ex3SAI 0 = \<lparr>id_item = ''r0'', seq_item = ''ACGTACGT''\<rparr> \<and>
   queryAt 2 ex3BlockC ex3FwdRT ex3RevRT = \<lparr>id_item = ''r5'', seq_item = ''ACGTAA''\<rparr> \<and>
   (\<exists>record\<in>set (hitBlocks (extractOverlapBlock zeroBlock) 0 0 ex3Line).
      \<exists>j\<in>{interval0_lower record..interval0_upper record}.
        id1 ex3OverlapC = id_item (targetAt record ex3FwdRT ex3RevRT ex3SAI ex3SAI j) \<and>
        interval_start (coord1 (match ex3OverlapC)) =
          (if isTargetRev (flags record)
           then length32 (seq_item (targetAt record ex3FwdRT ex3RevRT ex3SAI ex3SAI j)) -
                overlapLen record
           else 0)) \<and>
   interval_start (coord1 (match ex3OverlapC)) = 8 - 6 \<and>
   interval_end (coord1 (match ex3OverlapC)) = 8 - 1 \<and>
   seqlen (coord1 (match ex3OverlapC)) = 8 \<and>
   isExtreme (coord1 (match ex3OverlapC))"
proof -
  have m: "ex3OverlapC \<in> set [ex3OverlapA, ex3OverlapC]" by simp
  have q: "queryAt 2 ex3BlockC ex3FwdRT ex3RevRT = \<lparr>id_item = ''r5'', seq_item = ''ACGTAA''\<rparr>"
    "targetAt ex3BlockC ex3FwdRT ex3RevRT ex3SAI ex3SAI 0 =
       \<lparr>id_item = ''r0'', seq_item = ''ACGTACGT''\<rparr>"
    by (simp_all add: queryAt_def targetAt_def ex3_defs)
  have v: "interval_start (coord1 (match ex3OverlapC)) = 8 - 6"
    "interval_end (coord1 (match ex3OverlapC)) = 8 - 1"
    "seqlen (coord1 (match ex3OverlapC)) = 8"
    by (simp_all add: ex3OverlapC_def)
  from target_anchor [OF ex3_result m]
  have e: "\<exists>record\<in>set (hitBlocks (extractOverlapBlock zeroBlock) 0 0 ex3Line).
      \<exists>j\<in>{interval0_lower record..interval0_upper record}.
        id1 ex3OverlapC = id_item (targetAt record ex3FwdRT ex3RevRT ex3SAI ex3SAI j) \<and>
        interval_start (coord1 (match ex3OverlapC)) =
          (if isTargetRev (flags record)
           then length32 (seq_item (targetAt record ex3FwdRT ex3RevRT ex3SAI ex3SAI j)) -
                overlapLen record
           else 0)"
    and x: "isExtreme (coord1 (match ex3OverlapC))"
    by blast+
  from ex3_result m ex3_blocks q e v x show ?thesis by simp
qed

text \<open>
  Claim C9 as it was stated fails: for a block on the reverse index with an overlap of
  length 4 between reads of length 8, the overlap returned has \<open>coordB.start = 4\<close>.
\<close>

theorem target_anchor_counterexample:
  "hitStringToOverlaps (extractOverlapBlock zeroBlock) 0 0 ''1 1 0 1 4 0 01''
     exFwdRT exRevRT exFwdSAI exRevSAI = Inr [exOverlap] \<and>
   positionBody 1 exBlock exFwdRT exRevRT exFwdSAI exRevSAI 0 [] = Inr [exOverlap] \<and>
   interval_start (coord1 (match exOverlap)) \<noteq> 0"
  by (simp add: eval_defs exOverlap_def exBlock_def)

subsection \<open>Claims on sequence coordinates\<close>

lemma sint_sub_sub:
  fixes a b :: "32 word"
  assumes "0 \<le> sint b" "sint b < sint a"
  shows "sint (a - 1 - b) = sint a - 1 - sint b"
proof -
  have a: "sint a < 2 ^ 31" using sint_lt [of a] by simp
  have "a - 1 - b = word_of_int (sint a - 1 - sint b)" by simp
  then have "sint (a - 1 - b) = signed_take_bit 31 (sint a - 1 - sint b)"
    by (simp only: sint_sbintrunc') simp
  also have "\<dots> = sint a - 1 - sint b"
    using assms a by (intro signed_take_bit_int_eq_self) auto
  finally show ?thesis .
qed

lemma flip_sint:
  assumes "wellFormed c"
  shows "sint (interval_start (flip c)) = sint (seqlen c) - 1 - sint (interval_end c)"
    and "sint (interval_end (flip c)) = sint (seqlen c) - 1 - sint (interval_start c)"
    and "wellFormed (flip c)"
proof -
  from assms have e: "0 \<le> sint (interval_end c)" "sint (interval_end c) < sint (seqlen c)"
    and s: "0 \<le> sint (interval_start c)" "sint (interval_start c) < sint (seqlen c)"
    and se: "sint (interval_start c) \<le> sint (interval_end c)"
    by (auto simp: wellFormed_def)
  show 1: "sint (interval_start (flip c)) = sint (seqlen c) - 1 - sint (interval_end c)"
    using sint_sub_sub [OF e] by (simp add: flip_def)
  show 2: "sint (interval_end (flip c)) = sint (seqlen c) - 1 - sint (interval_start c)"
    using sint_sub_sub [OF s] by (simp add: flip_def)
  show "wellFormed (flip c)"
    unfolding wellFormed_def using 1 2 e s se by (simp add: flip_def)
qed

text \<open>
  Claim C6. For a well-formed coordinate, \<open>flip\<close> maps the interval
  \<open>[start, end]\<close> to \<open>[seqlen - 1 - end, seqlen - 1 - start]\<close> (also as signed
  integers, without overflow), the result is well-formed, and flipping twice gives the
  coordinate back.
\<close>

theorem flip_involution:
  assumes "wellFormed c"
  shows "interval_start (flip c) = seqlen c - 1 - interval_end c \<and>
         interval_end (flip c) = seqlen c - 1 - interval_start c \<and>
         seqlen (flip c) = seqlen c \<and>
         sint (interval_start (flip c)) = sint (seqlen c) - 1 - sint (interval_end c) \<and>
         sint (interval_end (flip c)) = sint (seqlen c) - 1 - sint (interval_start c) \<and>
         wellFormed (flip c) \<and>
         flip (flip c) = c"
  using flip_sint [OF assms] by (simp add: flip_def)

theorem flip_involution_witness:
  "wellFormed (mkSeqCoord 5 9 10) \<and> flip (mkSeqCoord 5 9 10) = mkSeqCoord 0 4 10 \<and>
   flip (flip (mkSeqCoord 5 9 10)) = mkSeqCoord 5 9 10"
proof -
  have w: "wellFormed (mkSeqCoord 5 9 10)" by (simp add: wellFormed_def mkSeqCoord_def)
  from flip_involution [OF w] w show ?thesis by (simp add: mkSeqCoord_def)
qed

subsection \<open>Claims on writeOverlap\<close>

text \<open>
  Claim C7. \<^verbatim>\<open>writeOverlap\<close> appends an overlap with a contained coordinate to the
  containment stream and does nothing else (no message, no test of extremity or
  properness); every overlap goes to at most one of the two streams, the containment stream
  receives only containments and the overlap stream only overlaps without a contained
  coordinate.
\<close>

theorem containment_routing:
  "(isContained (coord0 (match ovr)) \<or> isContained (coord1 (match ovr)) \<longrightarrow>
      writeOverlap ovr st = st\<lparr>containHandle := containHandle st @ [ovr]\<rparr>) \<and>
   (containHandle (writeOverlap ovr st) = containHandle st \<or>
    overlapHandle (writeOverlap ovr st) = overlapHandle st) \<and>
   (containHandle (writeOverlap ovr st) =
      (if isContained (coord0 (match ovr)) \<or> isContained (coord1 (match ovr))
       then containHandle st @ [ovr] else containHandle st)) \<and>
   (overlapHandle (writeOverlap ovr st) = overlapHandle st \<or>
    overlapHandle (writeOverlap ovr st) = overlapHandle st @ [ovr] \<and>
    \<not> isContained (coord0 (match ovr)) \<and> \<not> isContained (coord1 (match ovr)))"
  by (simp add: writeOverlap_def Let_def)

theorem containment_routing_witness:
  "isContained (coord1 (match exContained)) \<and> \<not> isExtreme (coord0 (match exContained)) \<and>
   writeOverlap exContained exStreams =
     \<lparr>containHandle = [exContained], overlapHandle = [], cerr = []\<rparr>"
proof -
  have c: "isContained (coord1 (match exContained))"
    by (simp add: exContained_def isContained_def)
  have e: "\<not> isExtreme (coord0 (match exContained))"
    by (simp add: exContained_def isExtreme_def isLeftExtreme_def isRightExtreme_def)
  from containment_routing [of exContained exStreams] c e show ?thesis by (simp add: exStreams_def)
qed

text \<open>
  Claim C8. An overlap without a contained coordinate and with both coordinates extreme
  is appended to the overlap stream exactly when it is proper in the sense of the design;
  when it is not, the streams are unchanged but for one message on \<^verbatim>\<open>std::cerr\<close>,
  \<^verbatim>\<open>writeOverlap\<close> returns, and the loop over the overlaps of the line goes on with
  the next one.
\<close>

theorem properness_routing:
  assumes "\<not> isContained (coord0 (match ovr))" and "\<not> isContained (coord1 (match ovr))"
    and "isExtreme (coord0 (match ovr))" and "isExtreme (coord1 (match ovr))"
  shows "(overlapHandle (writeOverlap ovr st) = overlapHandle st @ [ovr] \<longleftrightarrow> proper_spec ovr) \<and>
         writeOverlap ovr st =
           (if proper_spec ovr then st\<lparr>overlapHandle := overlapHandle st @ [ovr]\<rparr>
            else st\<lparr>cerr := cerr st @ [(''Skipping improper overlap: '', ovr)]\<rparr>) \<and>
         writeOverlaps (ovr # ov) st =
           writeOverlaps ov
             (if proper_spec ovr then st\<lparr>overlapHandle := overlapHandle st @ [ovr]\<rparr>
              else st\<lparr>cerr := cerr st @ [(''Skipping improper overlap: '', ovr)]\<rparr>)"
proof -
  have w: "writeOverlap ovr st =
           (if proper_spec ovr then st\<lparr>overlapHandle := overlapHandle st @ [ovr]\<rparr>
            else st\<lparr>cerr := cerr st @ [(''Skipping improper overlap: '', ovr)]\<rparr>)"
    using assms by (simp add: writeOverlap_def proper_spec_def Let_def)
  then show ?thesis by simp
qed

theorem properness_routing_witness:
  "\<not> isContained (coord0 (match exProper)) \<and> \<not> isContained (coord1 (match exProper)) \<and>
   isExtreme (coord0 (match exProper)) \<and> isExtreme (coord1 (match exProper)) \<and>
   proper_spec exProper \<and>
   writeOverlap exProper exStreams = \<lparr>containHandle = [], overlapHandle = [exProper], cerr = []\<rparr> \<and>
   \<not> isContained (coord0 (match exImproper)) \<and> \<not> isContained (coord1 (match exImproper)) \<and>
   isExtreme (coord0 (match exImproper)) \<and> isExtreme (coord1 (match exImproper)) \<and>
   \<not> proper_spec exImproper \<and>
   writeOverlap exImproper exStreams =
     \<lparr>containHandle = [], overlapHandle = [],
      cerr = [(''Skipping improper overlap: '', exImproper)]\<rparr> \<and>
   writeOverlaps [exImproper, exProper] exStreams =
     \<lparr>containHandle = [], overlapHandle = [exProper],
      cerr = [(''Skipping improper overlap: '', exImproper)]\<rparr>"
proof -
  have p: "\<not> isContained (coord0 (match exProper))" "\<not> isContained (coord1 (match exProper))"
    "isExtreme (coord0 (match exProper))" "isExtreme (coord1 (match exProper))"
    by (simp_all add: exProper_def coord_defs)
  have i: "\<not> isContained (coord0 (match exImproper))" "\<not> isContained (coord1 (match exImproper))"
    "isExtreme (coord0 (match exImproper))" "isExtreme (coord1 (match exImproper))"
    by (simp_all add: exImproper_def coord_defs)
  have pp: "proper_spec exProper" by (simp add: proper_spec_def exProper_def coord_defs)
  have ip: "\<not> proper_spec exImproper" by (simp add: proper_spec_def exImproper_def coord_defs)
  let ?st = "\<lparr>containHandle = [], overlapHandle = [],
               cerr = [(''Skipping improper overlap: '', exImproper)]\<rparr>"
  from properness_routing [OF p, where st = exStreams and ov = "[]"]
    properness_routing [OF i, where st = exStreams and ov = "[exProper]"]
    properness_routing [OF p, where st = ?st and ov = "[]"] p i pp ip
  show ?thesis by (simp add: exStreams_def)
qed

subsection \<open>Claims on the options\<close>

lemma optionCase_outputType:
  "optionCase ed c arg (die, opts) = Inr (die', opts') \<Longrightarrow>
   opt_outputType opts' = opt_outputType opts"
  by (auto simp: optionCase_def split: if_splits)

lemma optionLoop_outputType:
  "optionLoop ed getopts (die, opts) = Inr (die', opts') \<Longrightarrow>
   opt_outputType opts' = opt_outputType opts"
proof (induction getopts arbitrary: die opts)
  case Nil
  then show ?case by simp
next
  case (Cons g getopts)
  obtain c optarg where g: "g = (c, optarg)" by (cases g)
  from Cons.prems g obtain die1 opts1 where
    1: "optionCase ed c (istringstream_of (case optarg of Some a \<Rightarrow> a | None \<Rightarrow> []))
          (die, opts) = Inr (die1, opts1)"
    and 2: "optionLoop ed getopts (die1, opts1) = Inr (die', opts')"
    by (auto split: sum.splits)
  from Cons.IH [OF 2] optionCase_outputType [OF 1] show ?case by simp
qed

lemma parseOverlapOptions_outputType:
  "parseOverlapOptions ed sf getopts operands opts0 = Inr opts \<Longrightarrow>
   opt_outputType opts = opt_outputType opts0"
  by (auto simp: parseOverlapOptions_def Let_def split: sum.splits prod.splits if_splits
           dest: optionLoop_outputType)

text \<open>
  Claim C10. The output type starts as \<open>OT_ASQG\<close>; \<^verbatim>\<open>parseOverlapOptions\<close>
  returns it unchanged for every command line; so the assertion of \<^verbatim>\<open>overlapMain\<close>
  never fails, and no run of \<^verbatim>\<open>overlapMain\<close> calls \<^verbatim>\<open>convertHitsToOverlaps\<close>.
\<close>

theorem output_type_fixed:
  "opt_outputType (opt_initial d) = OT_ASQG \<and>
   (parseOverlapOptions ed sf getopts operands (opt_initial d) = Inr opts \<longrightarrow>
      opt_outputType opts = OT_ASQG) \<and>
   overlapMain ed sf d getopts operands \<noteq> AssertionFailed \<and>
   (overlapMain ed sf d getopts operands = Returned calls \<longrightarrow>
      ConvertHitsToOverlaps \<notin> set calls)"
proof -
  have i: "opt_outputType (opt_initial d) = OT_ASQG" by (simp add: opt_initial_def)
  have p: "opt_outputType opts' = OT_ASQG"
    if "parseOverlapOptions ed sf getopts operands (opt_initial d) = Inr opts'" for opts'
    using parseOverlapOptions_outputType [OF that] i by simp
  show ?thesis
    using i p by (auto simp: overlapMain_def split: sum.splits if_splits)
qed

theorem output_type_fixed_witness:
  "parseOverlapOptions (\<lambda>s v. (v, s)) (\<lambda>f. f) [(CHR ''t'', Some ''4''), (CHR ''i'', None)]
     [''reads.fa''] (opt_initial 45) =
     Inr ((opt_initial 45)\<lparr>opt_numThreads := 4, opt_bIrreducibleOnly := True,
            opt_readsFile := ''reads.fa'', opt_prefix := ''reads.fa''\<rparr>) \<and>
   overlapMain (\<lambda>s v. (v, s)) (\<lambda>f. f) 45 [(CHR ''t'', Some ''4''), (CHR ''i'', None)]
     [''reads.fa''] = Returned [ComputeHitsParallel, ConvertHitsToASQG] \<and>
   ConvertHitsToOverlaps \<notin> set [ComputeHitsParallel, ConvertHitsToASQG]"
proof -
  have 1: "parseOverlapOptions (\<lambda>s v. (v, s)) (\<lambda>f. f) [(CHR ''t'', Some ''4''), (CHR ''i'', None)]
     [''reads.fa''] (opt_initial 45) =
     Inr ((opt_initial 45)\<lparr>opt_numThreads := 4, opt_bIrreducibleOnly := True,
            opt_readsFile := ''reads.fa'', opt_prefix := ''reads.fa''\<rparr>)"
    by (simp add: parseOverlapOptions_def optionCase_def opt_initial_def extract_int_def
          extract_signed_def sentry_def istringstream_of_def scan_integer_def isspace_def
          isdigit_def digits_value_def digit_value_def)
  have 2: "overlapMain (\<lambda>s v. (v, s)) (\<lambda>f. f) 45 [(CHR ''t'', Some ''4''), (CHR ''i'', None)]
     [''reads.fa''] = Returned [ComputeHitsParallel, ConvertHitsToASQG]"
    by (simp add: overlapMain_def 1) (simp add: opt_initial_def)
  from output_type_fixed [of 45 "\<lambda>s v. (v, s)" "\<lambda>f. f" "[(CHR ''t'', Some ''4''), (CHR ''i'', None)]"
              "[''reads.fa'']" _ "[ComputeHitsParallel, ConvertHitsToASQG]"] 1 2
  show ?thesis by simp
qed

end
